theory Spec2Isabelle
  imports Main "HOL-Library.List_Lexorder"
begin

section \<open>Python text\<close>

text \<open>
  A Python \<open>str\<close> is a sequence of Unicode code points; it is modelled as a list of
  natural numbers, one per code point.  Source literals that are plain ASCII are written
  with \<open>py\<close>; other code points are given by number.
\<close>

type_synonym pystr = "nat list"

definition py :: "string \<Rightarrow> pystr" where
  "py s = map of_char s"

text \<open>\<open>str.isspace\<close> on one code point (the whitespace table of CPython 3).\<close>

definition isspace :: "nat \<Rightarrow> bool" where
  "isspace c \<longleftrightarrow>
     (9 \<le> c \<and> c \<le> 13) \<or> (28 \<le> c \<and> c \<le> 32) \<or> c = 133 \<or> c = 160 \<or> c = 5760 \<or>
     (8192 \<le> c \<and> c \<le> 8202) \<or> c = 8232 \<or> c = 8233 \<or> c = 8239 \<or> c = 8287 \<or> c = 12288"

text \<open>The line boundaries of \<open>str.splitlines\<close>.\<close>

definition is_linebreak :: "nat \<Rightarrow> bool" where
  "is_linebreak c \<longleftrightarrow>
     (10 \<le> c \<and> c \<le> 13) \<or> (28 \<le> c \<and> c \<le> 30) \<or> c = 133 \<or> c = 8232 \<or> c = 8233"

definition lstrip :: "pystr \<Rightarrow> pystr" where
  "lstrip s = dropWhile isspace s"

definition rstrip :: "pystr \<Rightarrow> pystr" where
  "rstrip s = rev (dropWhile isspace (rev s))"

definition strip :: "pystr \<Rightarrow> pystr" where
  "strip s = rstrip (lstrip s)"

definition startswith :: "'a list \<Rightarrow> 'a list \<Rightarrow> bool" where
  "startswith s p \<longleftrightarrow> take (length p) s = p"

definition endswith :: "'a list \<Rightarrow> 'a list \<Rightarrow> bool" where
  "endswith s p \<longleftrightarrow> length p \<le> length s \<and> drop (length s - length p) s = p"

text \<open>\<open>p in s\<close> for strings: \<open>p\<close> occurs in \<open>s\<close> as a contiguous run.\<close>

fun py_in :: "'a list \<Rightarrow> 'a list \<Rightarrow> bool" where
  "py_in p [] \<longleftrightarrow> p = []"
| "py_in p (c # cs) \<longleftrightarrow> startswith (c # cs) p \<or> py_in p cs"

text \<open>\<open>s.find(p)\<close>: the least offset at which \<open>p\<close> occurs, \<open>None\<close> for Python's \<open>-1\<close>.\<close>

fun str_find :: "'a list \<Rightarrow> 'a list \<Rightarrow> nat option" where
  "str_find [] p = (if p = [] then Some 0 else None)"
| "str_find (c # cs) p =
     (if startswith (c # cs) p then Some 0 else map_option Suc (str_find cs p))"

text \<open>A slice \<open>xs[a:b]\<close> with non-negative bounds; it is empty when \<open>b \<le> a\<close>.\<close>

definition slice :: "nat \<Rightarrow> nat \<Rightarrow> 'a list \<Rightarrow> 'a list" where
  "slice a b xs = take (b - a) (drop a xs)"

text \<open>
  \<open>s.replace(old, new)\<close>: every non-overlapping occurrence, found from the left.
  For an empty \<open>old\<close> Python puts \<open>new\<close> before each character and at the end.
\<close>

function replace_ne :: "'a list \<Rightarrow> 'a list \<Rightarrow> 'a list \<Rightarrow> 'a list" where
  "replace_ne old new [] = []"
| "replace_ne old new (c # cs) =
     (if old \<noteq> [] \<and> startswith (c # cs) old
      then new @ replace_ne old new (drop (length old) (c # cs))
      else c # replace_ne old new cs)"
  by pat_completeness auto
termination
  by (relation "measure (\<lambda>(old, new, s). length s)") (auto simp: startswith_def)

definition replace :: "'a list \<Rightarrow> 'a list \<Rightarrow> 'a list \<Rightarrow> 'a list" where
  "replace old new s =
     (if old = [] then new @ concat (map (\<lambda>c. c # new) s) else replace_ne old new s)"

text \<open>\<open>s.replace(old, new, 1)\<close>: the first occurrence only.\<close>

definition replace1 :: "'a list \<Rightarrow> 'a list \<Rightarrow> 'a list \<Rightarrow> 'a list" where
  "replace1 old new s =
     (case str_find s old of
        None \<Rightarrow> s
      | Some i \<Rightarrow> take i s @ new @ drop (i + length old) s)"

text \<open>
  \<open>f.readlines()\<close> on text read in universal-newline mode: the text is cut after each
  line feed, and every line keeps its line feed.
\<close>

fun readlines_acc :: "pystr \<Rightarrow> pystr \<Rightarrow> pystr list" where
  "readlines_acc cur [] = (if cur = [] then [] else [cur])"
| "readlines_acc cur (c # cs) =
     (if c = 10 then (cur @ [c]) # readlines_acc [] cs else readlines_acc (cur @ [c]) cs)"

definition readlines :: "pystr \<Rightarrow> pystr list" where
  "readlines s = readlines_acc [] s"

text \<open>
  \<open>s.splitlines(keepends)\<close>: cut after every line boundary; a carriage return directly
  followed by a line feed is one boundary.
\<close>

fun splitlines_acc :: "bool \<Rightarrow> pystr \<Rightarrow> pystr \<Rightarrow> pystr list" where
  "splitlines_acc k cur [] = (if cur = [] then [] else [cur])"
| "splitlines_acc k cur [c] =
     (if is_linebreak c then [cur @ (if k then [c] else [])] else [cur @ [c]])"
| "splitlines_acc k cur (c # d # ds) =
     (if c = 13 \<and> d = 10 then (cur @ (if k then [c, d] else [])) # splitlines_acc k [] ds
      else if is_linebreak c then (cur @ (if k then [c] else [])) # splitlines_acc k [] (d # ds)
      else splitlines_acc k (cur @ [c]) (d # ds))"

definition splitlines :: "bool \<Rightarrow> pystr \<Rightarrow> pystr list" where
  "splitlines keepends s = splitlines_acc keepends [] s"

section \<open>Locating boundaries\<close>

text \<open>
  Every locator of the scripts is the same loop,
  \<^verbatim>\<open>for i, line in enumerate(lines): if P(line): return i\<close>
  (or \<^verbatim>\<open>break\<close>), which leaves the index of the first line that satisfies the test.
\<close>

fun first_index :: "('a \<Rightarrow> bool) \<Rightarrow> 'a list \<Rightarrow> nat option" where
  "first_index P [] = None"
| "first_index P (x # xs) = (if P x then Some 0 else map_option Suc (first_index P xs))"

text \<open>\<open>find_line\<close> of \<^verbatim>\<open>split-toolbar.py\<close>: the index, or \<open>-1\<close>.\<close>

definition toolbar_find_line :: "pystr list \<Rightarrow> pystr \<Rightarrow> int" where
  "toolbar_find_line lines text =
     (case first_index (py_in text) lines of Some i \<Rightarrow> int i | None \<Rightarrow> - 1)"

datatype exn = ValueError | FileNotFoundError | KeyError

text \<open>\<open>find_line\<close> of \<^verbatim>\<open>split-template-blueprint.py\<close>: the index, or a raised \<open>ValueError\<close>.\<close>

definition blueprint_find_line :: "pystr \<Rightarrow> pystr \<Rightarrow> exn + nat" where
  "blueprint_find_line pattern src =
     (case first_index (py_in pattern) (splitlines False src) of
        Some i \<Rightarrow> Inr i
      | None \<Rightarrow> Inl ValueError)"

text \<open>
  The boundary search of \<^verbatim>\<open>split-canvas-projection.py\<close>; \<open>None\<close> is Python's \<open>None\<close>.
\<close>

definition boundary_line :: "pystr list \<Rightarrow> nat option" where
  "boundary_line lines =
     first_index (\<lambda>line. startswith (strip line) (py ''function estimateSessionPages'')) lines"

section \<open>Files and runs\<close>

text \<open>
  The file system is a map from paths to the text a read of that path returns, together
  with the log of the paths written so far, so that a run that writes nothing can be told
  from one that writes a file back unchanged.  Writes are taken to succeed.
\<close>

type_synonym path = string

record fsys =
  files :: "path \<rightharpoonup> pystr"
  written :: "path list"

definition read_file :: "fsys \<Rightarrow> path \<Rightarrow> exn + pystr" where
  "read_file fs p = (case files fs p of None \<Rightarrow> Inl FileNotFoundError | Some t \<Rightarrow> Inr t)"

definition write_file :: "path \<Rightarrow> pystr \<Rightarrow> fsys \<Rightarrow> fsys" where
  "write_file p t fs = fs\<lparr>files := (files fs)(p \<mapsto> t), written := written fs @ [p]\<rparr>"

text \<open>
  A script ends normally, by \<open>sys.exit(n)\<close>, or by an exception nobody catches; the
  process result is 0 only in the first case.
\<close>

datatype failure = SysExit nat | Uncaught exn

type_synonym run = "failure option \<times> fsys"

fun exit_status :: "failure option \<Rightarrow> nat" where
  "exit_status None = 0"
| "exit_status (Some (SysExit n)) = n"
| "exit_status (Some (Uncaught e)) = 1"

text \<open>
  A sequence of \<^verbatim>\<open>with open(path, "w") as f: f.write(content)\<close> statements, in order.
\<close>

fun emit :: "(path \<times> pystr) list \<Rightarrow> fsys \<Rightarrow> fsys" where
  "emit [] fs = fs"
| "emit ((p, t) # ws) fs = emit ws (write_file p t fs)"

section \<open>split-canvas-projection.py\<close>

definition canvas_path :: path where
  "canvas_path = ''/Users/benjaminjacklaubacher/Neptino/src/lib/curriculum/canvas-projection.ts''"

definition projector_path :: path where
  "projector_path = ''/Users/benjaminjacklaubacher/Neptino/src/lib/curriculum/canvas-lesson-projector.ts''"

text \<open>The loop that pops trailing blank lines.\<close>

definition pop_blank_lines :: "pystr list \<Rightarrow> pystr list" where
  "pop_blank_lines ls = rev (dropWhile (\<lambda>l. strip l = []) (rev ls))"

definition projection_lines :: "pystr list \<Rightarrow> nat \<Rightarrow> pystr list" where
  "projection_lines lines b = pop_blank_lines (take b lines) @ [py ''\<newline>'']"

definition projector_lines :: "pystr list \<Rightarrow> nat \<Rightarrow> pystr list" where
  "projector_lines lines b = drop b lines"

definition projector_header :: "pystr list" where
  \<open>projector_header =
    [py ''// Full canvas lesson projector extracted from canvas-projection.ts\<newline>'',
     py ''import {\<newline>'',
     py ''  planLessonBodyLayout, estimateExpandedTaskCount,\<newline>'',
     py ''  resolveEnabledBlocks, resolveTemplateFieldState,\<newline>'',
     py ''  type RawCurriculumSessionRow, type RawScheduleGeneratedEntry, type LessonCanvasPageProjection,\<newline>'',
     py ''} from "@/lib/curriculum/canvas-projection"\<newline>'',
     py ''import { resolveTemplateSelection, type NormalizedTemplateConfig } from "@/lib/curriculum/template-source-of-truth"\<newline>'',
     py ''import type { TemplateType, TemplateBlockType } from "@/lib/curriculum/template-blocks"\<newline>'',
     py ''\<newline>'']\<close>

definition projector_content :: "pystr list \<Rightarrow> nat \<Rightarrow> pystr list" where
  "projector_content lines b = projector_header @ projector_lines lines b"

definition split_canvas_projection :: "fsys \<Rightarrow> run" where
  "split_canvas_projection fs =
     (case read_file fs canvas_path of
        Inl e \<Rightarrow> (Some (Uncaught e), fs)
      | Inr text \<Rightarrow>
          (let lines = readlines text in
           case boundary_line lines of
             None \<Rightarrow> (Some (SysExit 1), fs)
           | Some b \<Rightarrow>
               (None, emit [(canvas_path, concat (projection_lines lines b)),
                            (projector_path, concat (projector_content lines b))] fs)))"

section \<open>split-toolbar.py\<close>

definition toolbar_path :: path where
  "toolbar_path = ''/Users/benjaminjacklaubacher/Neptino/src/components/coursebuilder/create/toolbar/ToolBar.tsx''"

definition options_path :: path where
  "options_path = ''/Users/benjaminjacklaubacher/Neptino/src/components/coursebuilder/create/toolbar/toolbar-options.tsx''"

text \<open>The four markers; 9472 is the box-drawing dash of the section comments.\<close>

definition opt_primitives_marker :: pystr where
  "opt_primitives_marker = py ''// '' @ [9472, 9472, 9472] @ py '' Option primitives''"

definition opts_strip_marker :: pystr where
  "opts_strip_marker = py ''// '' @ [9472, 9472, 9472] @ py '' Tool options strip''"

definition tool_button_marker :: pystr where
  "tool_button_marker = py ''function ToolButton<''"

definition toolbar_marker :: pystr where
  "toolbar_marker = py ''export function ToolBar()''"

definition options_lines :: "pystr list \<Rightarrow> nat \<Rightarrow> nat \<Rightarrow> pystr list" where
  "options_lines lines opt_primitives_start tool_button_start =
     slice opt_primitives_start tool_button_start lines"

definition kept_start :: "pystr list \<Rightarrow> nat \<Rightarrow> pystr list" where
  "kept_start lines opt_primitives_start = take opt_primitives_start lines"

definition kept_end :: "pystr list \<Rightarrow> nat \<Rightarrow> pystr list" where
  "kept_end lines tool_button_start = drop tool_button_start lines"

definition options_content :: "pystr list \<Rightarrow> pystr" where
  \<open>options_content opts =
     replace (py ''function ToolOptionsStrip('') (py ''export function ToolOptionsStrip('')
       (py ''"use client"\<newline>'' @ py ''\<newline>'' @
        py ''import { useState } from "react"\<newline>'' @
        py ''import type { BuildTool, AnimateTool } from "../store/canvasStore"\<newline>'' @
        py ''\<newline>'' @ concat opts)\<close>

definition import_line :: pystr where
  \<open>import_line = py ''import { ToolOptionsStrip } from "./toolbar-options"\<newline>''\<close>

text \<open>The loop that remembers the index of the last line starting with \<open>import\<close>.\<close>

fun last_import_idx :: "nat \<Rightarrow> nat \<Rightarrow> pystr list \<Rightarrow> nat" where
  "last_import_idx acc i [] = acc"
| "last_import_idx acc i (line # ls) =
     last_import_idx (if startswith (strip line) (py ''import'') then i else acc) (Suc i) ls"

text \<open>\<open>xs.insert(i, x)\<close> for a non-negative index; past the end it appends.\<close>

definition list_insert :: "nat \<Rightarrow> 'a \<Rightarrow> 'a list \<Rightarrow> 'a list" where
  "list_insert i x xs = take i xs @ x # drop i xs"

definition new_toolbar_content :: "pystr list \<Rightarrow> nat \<Rightarrow> nat \<Rightarrow> pystr" where
  "new_toolbar_content lines opt_primitives_start tool_button_start =
     (let ks = kept_start lines opt_primitives_start in
      concat (list_insert (last_import_idx 0 0 ks + 1) import_line ks
              @ kept_end lines tool_button_start))"

definition split_toolbar :: "fsys \<Rightarrow> run" where
  "split_toolbar fs =
     (case read_file fs toolbar_path of
        Inl e \<Rightarrow> (Some (Uncaught e), fs)
      | Inr text \<Rightarrow>
          (let lines = readlines text;
               opt_primitives_start = toolbar_find_line lines opt_primitives_marker;
               opts_strip_comment_start = toolbar_find_line lines opts_strip_marker;
               tool_button_start = toolbar_find_line lines tool_button_marker;
               toolbar_start = toolbar_find_line lines toolbar_marker
           in if opt_primitives_start = - 1 \<or> opts_strip_comment_start = - 1 \<or>
                 tool_button_start = - 1 \<or> toolbar_start = - 1
              then (Some (SysExit 1), fs)
              else (None,
                emit [(toolbar_path,
                         new_toolbar_content lines (nat opt_primitives_start) (nat tool_button_start)),
                      (options_path,
                         options_content
                           (options_lines lines (nat opt_primitives_start) (nat tool_button_start)))]
                  fs)))"

section \<open>split-template-blueprint.py\<close>

definition MAIN :: path where
  "MAIN = ''src/components/coursebuilder/template-blueprint.tsx''"

definition TYPES_FILE :: path where
  "TYPES_FILE = ''src/components/coursebuilder/template-blueprint-types.tsx''"

definition MEDIA_FILE :: path where
  "MEDIA_FILE = ''src/components/coursebuilder/template-blueprint-media.tsx''"

definition SLOT_FILE :: path where
  "SLOT_FILE = ''src/components/coursebuilder/template-blueprint-slot-views.tsx''"

definition LIVE_FILE :: path where
  "LIVE_FILE = ''src/components/coursebuilder/template-blueprint-live.tsx''"

record offsets =
  types_start :: nat
  media_start :: nat
  slot_views_start :: nat
  live_start :: nat
  main_start :: nat
  props_start :: nat

text \<open>The six calls of \<open>find_line\<close>, in the order the script makes them.\<close>

definition locate_blueprint :: "pystr \<Rightarrow> exn + offsets" where
  "locate_blueprint src =
     (case blueprint_find_line (py ''export interface TemplateAreaMediaItem {'') src of
        Inl e \<Rightarrow> Inl e
      | Inr ts \<Rightarrow>
     (case blueprint_find_line (py ''function resolveEmbedUrl(url: string): string | null {'') src of
        Inl e \<Rightarrow> Inl e
      | Inr ms \<Rightarrow>
     (case blueprint_find_line
             (py ''function SlotSectionLabel({ children }: { children: React.ReactNode }) {'') src of
        Inl e \<Rightarrow> Inl e
      | Inr ss \<Rightarrow>
     (case blueprint_find_line (py ''function LiveNestedSlot({'') src of
        Inl e \<Rightarrow> Inl e
      | Inr ls \<Rightarrow>
     (case blueprint_find_line (py ''export function JsonTemplatePreview({'') src of
        Inl e \<Rightarrow> Inl e
      | Inr mn \<Rightarrow>
     (case blueprint_find_line (py ''interface TemplateBlueprintProps {'') src of
        Inl e \<Rightarrow> Inl e
      | Inr ps \<Rightarrow>
          Inr \<lparr>types_start = ts, media_start = ms, slot_views_start = ss,
               live_start = ls, main_start = mn, props_start = ps\<rparr>))))))"

definition extract_lines :: "pystr \<Rightarrow> nat \<Rightarrow> nat \<Rightarrow> pystr" where
  "extract_lines src start end = concat (slice start end (splitlines True src))"

text \<open>
  The seven blocks the script cuts, in document order: the original imports, the props
  block, and the types, media, slot-views, live and main blocks.
\<close>

definition blueprint_blocks :: "pystr \<Rightarrow> offsets \<Rightarrow> pystr list" where
  "blueprint_blocks src off =
     [extract_lines src 0 (props_start off),
      extract_lines src (props_start off) (types_start off),
      extract_lines src (types_start off) (media_start off),
      extract_lines src (media_start off) (slot_views_start off),
      extract_lines src (slot_views_start off) (live_start off),
      extract_lines src (live_start off) (main_start off),
      extract_lines src (main_start off) (length (splitlines True src))]"

definition types_header :: pystr where
  \<open>types_header =
     py ''"use client"\<newline>'' @
     py ''// Types, context, and utility functions shared across template-blueprint modules.\<newline>'' @
     py ''\<newline>'' @
     py ''import React from "react"\<newline>'' @
     py ''import type { BlockId } from "@/components/coursebuilder/sections/templates-section"\<newline>'' @
     py ''\<newline>''\<close>

definition media_header :: pystr where
  \<open>media_header =
     py ''"use client"\<newline>'' @
     py ''// Media preview and drop-zone components for template-blueprint.\<newline>'' @
     py ''\<newline>'' @
     py ''import React from "react"\<newline>'' @
     py ''import { useDroppable } from "@dnd-kit/core"\<newline>'' @
     py ''import type { TemplateAreaMediaItem } from "./template-blueprint-types"\<newline>'' @
     py ''\<newline>''\<close>

definition slot_header :: pystr where
  \<open>slot_header =
     py ''"use client"\<newline>'' @
     py ''// Static slot view components used in the JSON-driven blueprint renderer.\<newline>'' @
     py ''\<newline>'' @
     py ''import React from "react"\<newline>'' @
     py ''\<newline>''\<close>

definition live_header :: pystr where
  \<open>live_header =
     py ''"use client"\<newline>'' @
     py ''// Live (data-driven) canvas components: LiveNestedSlot, BlueprintBodySlot, MarginBand.\<newline>'' @
     py ''\<newline>'' @
     py ''import React from "react"\<newline>'' @
     py ''import {\<newline>'' @
     py ''  useTemplateBlueprintContext,\<newline>'' @
     py ''  buildStableTaskKey,\<newline>'' @
     py ''  buildTaskAreaKey,\<newline>'' @
     py ''  type TemplateBlueprintData,\<newline>'' @
     py ''  type TaskAreaKind,\<newline>'' @
     py ''} from "./template-blueprint-types"\<newline>'' @
     py ''import { TaskAreaDropZone } from "./template-blueprint-media"\<newline>'' @
     py ''import {\<newline>'' @
     py ''  SlotSectionLabel,\<newline>'' @
     py ''  NestedSlotView,\<newline>'' @
     py ''  TableSlotView,\<newline>'' @
     py ''  ScoringRubricView,\<newline>'' @
     py ''  TocListView,\<newline>'' @
     py ''  CertificateBodyView,\<newline>'' @
     py ''  DiscussionPromptView,\<newline>'' @
     py ''  ReflectionJournalView,\<newline>'' @
     py ''  SurveyFormView,\<newline>'' @
     py ''} from "./template-blueprint-slot-views"\<newline>'' @
     py ''import { slotToBlockId, type BodySlot } from "@/lib/curriculum/template-json-blueprints"\<newline>'' @
     py ''import type { BlockId } from "@/components/coursebuilder/sections/templates-section"\<newline>'' @
     py ''\<newline>''\<close>

definition main_imports :: pystr where
  \<open>main_imports =
     py ''\<newline>'' @
     py ''import {\<newline>'' @
     py ''  TemplateBlueprintContext,\<newline>'' @
     py ''  SCALE_CONFIG,\<newline>'' @
     py ''  type TemplateAreaMediaItem,\<newline>'' @
     py ''  type TaskAreaKind,\<newline>'' @
     py ''  type TemplateBlueprintData,\<newline>'' @
     py ''} from "./template-blueprint-types"\<newline>'' @
     py ''import { BlueprintBodySlot, MarginBand } from "./template-blueprint-live"\<newline>''\<close>

definition types_content :: "pystr \<Rightarrow> pystr" where
  "types_content types_block =
     replace (py ''function useTemplateBlueprintContext()'')
             (py ''export function useTemplateBlueprintContext()'')
    (replace (py ''interface TemplateBlueprintContextValue {'')
             (py ''export interface TemplateBlueprintContextValue {'')
    (replace (py ''const TemplateBlueprintContext = '')
             (py ''export const TemplateBlueprintContext = '')
    (replace (py ''const SCALE_CONFIG = {'') (py ''export const SCALE_CONFIG = {'')
       (types_header @ types_block))))"

definition renderer_comment :: pystr where
  "renderer_comment = py ''// '' @ [9472, 9472, 9472] @ py '' JSON Blueprint Renderer''"

definition media_content_raw :: "pystr \<Rightarrow> pystr" where
  "media_content_raw media_block =
     (case str_find media_block renderer_comment of
        None \<Rightarrow> media_block
      | Some renderer_comment_start \<Rightarrow> take renderer_comment_start media_block)"

text \<open>
  The loop \<^verbatim>\<open>for fn_name in names: content = content.replace(...)\<close> that puts
  \<open>export\<close> before the named functions.
\<close>

definition export_functions :: "pystr list \<Rightarrow> pystr \<Rightarrow> pystr" where
  "export_functions names content =
     fold (\<lambda>fn_name c.
             replace (py ''\<newline>function '' @ fn_name @ py ''('')
                     (py ''\<newline>export function '' @ fn_name @ py ''('') c)
          names content"

definition media_content :: "pystr \<Rightarrow> pystr" where
  "media_content media_block =
     export_functions [py ''MediaPreview'', py ''TaskAreaDropZone'']
       (media_header @ media_content_raw media_block)"

definition slot_content :: "pystr \<Rightarrow> pystr" where
  "slot_content slot_views_block =
     export_functions
       [py ''SlotSectionLabel'', py ''TableSlotView'', py ''NestedSlotView'',
        py ''ScoringRubricView'', py ''TocListView'', py ''CertificateBodyView'',
        py ''DiscussionPromptView'', py ''ReflectionJournalView'', py ''SurveyFormView'']
       (slot_header @ slot_views_block)"

definition live_content :: "pystr \<Rightarrow> pystr" where
  "live_content live_block =
     export_functions [py ''LiveNestedSlot'', py ''BlueprintBodySlot'', py ''MarginBand'']
       (live_header @ live_block)"

definition drop_useDroppable :: "pystr \<Rightarrow> pystr" where
  \<open>drop_useDroppable t =
     replace (py ''\<newline>import { useDroppable } from "@dnd-kit/core"\<newline>'') (py ''\<newline>'') t\<close>

definition new_main_content :: "pystr \<Rightarrow> offsets \<Rightarrow> pystr" where
  "new_main_content src off =
     drop_useDroppable (extract_lines src 0 (props_start off)) @ main_imports @
     drop_useDroppable (extract_lines src (props_start off) (types_start off)) @
     extract_lines src (main_start off) (length (splitlines True src))"

definition split_template_blueprint :: "fsys \<Rightarrow> run" where
  "split_template_blueprint fs =
     (case read_file fs MAIN of
        Inl e \<Rightarrow> (Some (Uncaught e), fs)
      | Inr src \<Rightarrow>
          (case locate_blueprint src of
             Inl e \<Rightarrow> (Some (Uncaught e), fs)
           | Inr off \<Rightarrow>
               (None,
                emit [(TYPES_FILE,
                         types_content (extract_lines src (types_start off) (media_start off))),
                      (MEDIA_FILE,
                         media_content (extract_lines src (media_start off) (slot_views_start off))),
                      (SLOT_FILE,
                         slot_content (extract_lines src (slot_views_start off) (live_start off))),
                      (LIVE_FILE,
                         live_content (extract_lines src (live_start off) (main_start off))),
                      (MAIN, new_main_content src off)] fs)))"

section \<open>Example documents\<close>

text \<open>
  A toolbar source in which \<open>ToolButton\<close> is declared before the option primitives,
  so that the four markers are all found but not in the order the script expects.
\<close>

definition toolbar_reordered :: pystr where
  "toolbar_reordered =
     py ''function ToolButton<T>() {}\<newline>'' @
     opt_primitives_marker @ py ''\<newline>'' @
     opts_strip_marker @ py ''\<newline>'' @
     py ''export function ToolBar() {}\<newline>''"

section \<open>Regular expressions\<close>

text \<open>
  The patterns of the scripts are sequences of literals, greedy and lazy repetitions of a
  character class, and lookaheads for a literal.  \<open>rmatch\<close> is the backtracking matcher
  of \<open>re\<close> on such a sequence, anchored at the start of the text: a greedy repetition
  first tries to take one more character and gives it back only if the rest then fails;
  a lazy one first tries the rest.  The result is the text left after the match.
\<close>

datatype ritem =
    Lit pystr
  | Star "nat \<Rightarrow> bool"
  | Plus "nat \<Rightarrow> bool"
  | Lazy "nat \<Rightarrow> bool"
  | Ahead pystr

function rmatch :: "ritem list \<Rightarrow> pystr \<Rightarrow> pystr option" where
  "rmatch [] s = Some s"
| "rmatch (Lit l # r) s = (if startswith s l then rmatch r (drop (length l) s) else None)"
| "rmatch (Star P # r) [] = rmatch r []"
| "rmatch (Star P # r) (c # cs) =
     (if P c
      then (case rmatch (Star P # r) cs of Some t \<Rightarrow> Some t | None \<Rightarrow> rmatch r (c # cs))
      else rmatch r (c # cs))"
| "rmatch (Plus P # r) [] = None"
| "rmatch (Plus P # r) (c # cs) = (if P c then rmatch (Star P # r) cs else None)"
| "rmatch (Lazy P # r) [] = rmatch r []"
| "rmatch (Lazy P # r) (c # cs) =
     (case rmatch r (c # cs) of
        Some t \<Rightarrow> Some t
      | None \<Rightarrow> if P c then rmatch (Lazy P # r) cs else None)"
| "rmatch (Ahead l # r) s = (if startswith s l then rmatch r s else None)"
  by pat_completeness auto
termination
  by (relation "measure (\<lambda>(r, s). length r + length s)") auto

text \<open>
  \<open>re.sub(pattern, repl, s)\<close>: the text is scanned from the left; where the pattern
  matches, the match is replaced by \<open>repl\<close> applied to the matched text and the scan goes
  on after it; elsewhere one character is copied.
\<close>

function re_sub :: "ritem list \<Rightarrow> (pystr \<Rightarrow> pystr) \<Rightarrow> pystr \<Rightarrow> pystr" where
  "re_sub r f [] = (case rmatch r [] of Some t \<Rightarrow> f [] | None \<Rightarrow> [])"
| "re_sub r f (c # cs) =
     (case rmatch r (c # cs) of
        None \<Rightarrow> c # re_sub r f cs
      | Some t \<Rightarrow>
          if length t < length (c # cs)
          then f (take (length (c # cs) - length t) (c # cs)) @ re_sub r f t
          else f [] @ c # re_sub r f cs)"
  by pat_completeness auto
termination
  by (relation "measure (\<lambda>(r, f, s). length s)") auto

text \<open>\<open>re.search\<close>: start and end offset of the leftmost match.\<close>

fun re_search :: "ritem list \<Rightarrow> pystr \<Rightarrow> (nat \<times> nat) option" where
  "re_search r [] = (case rmatch r [] of Some t \<Rightarrow> Some (0, 0) | None \<Rightarrow> None)"
| "re_search r (c # cs) =
     (case rmatch r (c # cs) of
        Some t \<Rightarrow> Some (0, length (c # cs) - length t)
      | None \<Rightarrow> map_option (\<lambda>(a, b). (Suc a, Suc b)) (re_search r cs))"

section \<open>update-route.py\<close>

definition route_path :: path where
  "route_path = ''/Users/benjaminjacklaubacher/Neptino/src/app/api/generate-curriculum/route.ts''"

definition new_imports :: pystr where
  \<open>new_imports =
     py ''import {\<newline>'' @
     py ''  repairJSON,\<newline>'' @
     py ''  extractLessonsViaRegex,\<newline>'' @
     py ''  extractModulesViaRegex,\<newline>'' @
     py ''  cleanModelOutput,\<newline>'' @
     py ''  fitToCount,\<newline>'' @
     py ''  normalizeGeneratedLessons,\<newline>'' @
     py ''} from "./generation-route-utils"\<newline>'' @
     py ''import type { GeneratedLesson, GeneratedModule } from "./generation-route-utils"\<newline>''\<close>

definition old_anchor :: pystr where
  \<open>old_anchor =
     py ''import type { GenerationAction } from "@/lib/curriculum/ai-generation-service"\<newline>''\<close>

text \<open>
  The pattern of the block to delete, read with \<open>re.DOTALL\<close>: the doc comment line,
  then as little as possible of anything, up to where \<open>const SYSTEM_PROMPT_BASE\<close> starts
  a line.
\<close>

definition route_pattern :: "ritem list" where
  "route_pattern =
     [Lit (py ''\<newline>/** Shape of each lesson in the generated curriculum */\<newline>''),
      Lazy (\<lambda>c. True),
      Ahead (py ''\<newline>const SYSTEM_PROMPT_BASE'')]"

definition update_route :: "fsys \<Rightarrow> run" where
  "update_route fs =
     (case read_file fs route_path of
        Inl e \<Rightarrow> (Some (Uncaught e), fs)
      | Inr content \<Rightarrow>
          if \<not> py_in old_anchor content then (Some (SysExit 1), fs)
          else
            (let content1 = replace1 old_anchor (old_anchor @ new_imports) content in
             case re_search route_pattern content1 of
               None \<Rightarrow> (Some (SysExit 1), fs)
             | Some (match_start, match_end) \<Rightarrow>
                 (None,
                  emit [(route_path, take match_start content1 @ drop match_end content1)] fs)))"

text \<open>The six search strings of the template-blueprint splitter, in call order.\<close>

definition blueprint_markers :: "pystr list" where
  "blueprint_markers =
     [py ''export interface TemplateAreaMediaItem {'',
      py ''function resolveEmbedUrl(url: string): string | null {'',
      py ''function SlotSectionLabel({ children }: { children: React.ReactNode }) {'',
      py ''function LiveNestedSlot({'',
      py ''export function JsonTemplatePreview({'',
      py ''interface TemplateBlueprintProps {'']"

section \<open>update\_nav\_classes.py\<close>

text \<open>
  \<open>\w\<close> on text: the ASCII letters, digits and underscore, and beyond ASCII whatever the
  Unicode database calls alphanumeric.  That table is not part of the repository; it is
  the parameter \<open>uni\<close>.
\<close>

definition is_word :: "(nat \<Rightarrow> bool) \<Rightarrow> nat \<Rightarrow> bool" where
  "is_word uni c \<longleftrightarrow>
     c = 95 \<or> (48 \<le> c \<and> c \<le> 57) \<or> (65 \<le> c \<and> c \<le> 90) \<or> (97 \<le> c \<and> c \<le> 122) \<or>
     (128 \<le> c \<and> uni c)"

text \<open>Substitution of a literal by a literal.\<close>

definition sub_lit :: "pystr \<Rightarrow> pystr \<Rightarrow> pystr \<Rightarrow> pystr" where
  "sub_lit pat repl s = re_sub [Lit pat] (\<lambda>m. repl) s"

text \<open>
  The eight substitutions, in order.  In the first, the group \<open>(\w+)\<close> is the matched
  text without its 16 leading characters and its closing quote.
\<close>

definition nav_subs :: "(nat \<Rightarrow> bool) \<Rightarrow> pystr \<Rightarrow> pystr" where
  \<open>nav_subs uni content =
     sub_lit (py ''"nav nav--'') (py ''"ul ul--'')
    (sub_lit (py ''nav__cta'') (py ''cta'')
    (sub_lit (py ''nav__brand'') (py ''brand'')
    (sub_lit (py ''nav__link"'') (py ''link"'')
    (sub_lit (py ''nav__link link link--subtle'') (py ''link link--footer link--subtle'')
    (sub_lit (py ''nav__link link"'') (py ''link link--header"'')
    (sub_lit (py ''nav__item'') (py ''ul__item'')
    (re_sub [Lit (py ''class="nav nav--''), Plus (is_word uni), Lit (py ''"'')]
       (\<lambda>m. py ''class="ul ul--'' @ take (length m - 17) (drop 16 m) @ py ''"'')
       content)))))))\<close>

text \<open>
  \<open>update_navigation_classes\<close>: any exception, such as an unreadable file, is caught and
  gives \<open>False\<close>.
\<close>

definition update_navigation_classes :: "(nat \<Rightarrow> bool) \<Rightarrow> path \<Rightarrow> fsys \<Rightarrow> fsys \<times> bool" where
  "update_navigation_classes uni file_path fs =
     (case read_file fs file_path of
        Inl e \<Rightarrow> (fs, False)
      | Inr original_content \<Rightarrow>
          (let content = nav_subs uni original_content in
           if content \<noteq> original_content
           then (write_file file_path content fs, True)
           else (fs, False)))"

section \<open>rebuild-isced-data.py\<close>

text \<open>
  Two tables of the Unicode database are parameters: \<open>nd\<close>, the decimal digits beyond
  ASCII that \<open>\d\<close> accepts, and \<open>nfkd\<close>, the normalisation \<open>unicodedata.normalize("NFKD", _)\<close>.
  The rows are those \<open>csv.DictReader\<close> yields; a missing column reads as \<open>None\<close>.
\<close>

definition is_decimal :: "(nat \<Rightarrow> bool) \<Rightarrow> nat \<Rightarrow> bool" where
  "is_decimal nd c \<longleftrightarrow> (48 \<le> c \<and> c \<le> 57) \<or> (128 \<le> c \<and> nd c)"

definition ascii_lower :: "nat \<Rightarrow> nat" where
  "ascii_lower c = (if 65 \<le> c \<and> c \<le> 90 then c + 32 else c)"

text \<open>\<open>s.strip("-")\<close>.\<close>

definition strip_dash :: "pystr \<Rightarrow> pystr" where
  "strip_dash s = rev (dropWhile (\<lambda>c. c = 45) (rev (dropWhile (\<lambda>c. c = 45) s)))"

definition slugify :: "(pystr \<Rightarrow> pystr) \<Rightarrow> pystr \<Rightarrow> pystr" where
  "slugify nfkd text =
     (let t1 = map ascii_lower (filter (\<lambda>c. c < 128) (nfkd text));
          t2 = strip_dash
                 (re_sub [Plus (\<lambda>c. \<not> ((97 \<le> c \<and> c \<le> 122) \<or> (48 \<le> c \<and> c \<le> 57)))]
                    (\<lambda>m. py ''-'') t1);
          t3 = re_sub [Plus (\<lambda>c. c = 45)] (\<lambda>m. py ''-'') t2
      in if t3 = [] then py ''item'' else t3)"

record node =
  node_value :: pystr
  label :: pystr
  code :: pystr

record topic = node +
  subtopics :: "node list"

record subject = node +
  topics :: "topic list"

record domain = node +
  subjects :: "subject list"

record row =
  Notation :: "pystr option"
  Label :: "pystr option"

text \<open>\<open>x or ""\<close> for a value that is a string or \<open>None\<close>.\<close>

definition or_empty :: "pystr option \<Rightarrow> pystr" where
  "or_empty x = (case x of None \<Rightarrow> [] | Some s \<Rightarrow> s)"

text \<open>
  \<open>re.fullmatch(r"F(\d{2}|\d{3}|\d{4})", notation)\<close> and its group 1: the notation is
  the letter F followed by two, three or four decimal digits, which are the code.
\<close>

definition isced_code :: "(nat \<Rightarrow> bool) \<Rightarrow> pystr \<Rightarrow> pystr option" where
  "isced_code nd notation =
     (case notation of
        [] \<Rightarrow> None
      | c # rest \<Rightarrow>
          if c = 70 \<and> (length rest = 2 \<or> length rest = 3 \<or> length rest = 4) \<and>
             list_all (is_decimal nd) rest
          then Some rest else None)"

fun items :: "(nat \<Rightarrow> bool) \<Rightarrow> row list \<Rightarrow> (pystr \<times> pystr) list" where
  "items nd [] = []"
| "items nd (r # rs) =
     (case isced_code nd (strip (or_empty (Notation r))) of
        None \<Rightarrow> items nd rs
      | Some c \<Rightarrow> (c, strip (or_empty (Label r))) # items nd rs)"

text \<open>A dictionary in insertion order; \<open>d.setdefault(k, v)\<close> and \<open>d[k]\<close>.\<close>

definition setdefault :: "('k \<times> 'v) list \<Rightarrow> 'k \<Rightarrow> 'v \<Rightarrow> ('k \<times> 'v) list" where
  "setdefault d k v = (case map_of d k of None \<Rightarrow> d @ [(k, v)] | Some w \<Rightarrow> d)"

definition getitem :: "('k \<times> 'v) list \<Rightarrow> 'k \<Rightarrow> exn + 'v" where
  "getitem d k = (case map_of d k of None \<Rightarrow> Inl KeyError | Some v \<Rightarrow> Inr v)"

definition labels :: "(pystr \<times> pystr) list \<Rightarrow> (pystr \<times> pystr) list" where
  "labels its = fold (\<lambda>(c, l) d. setdefault d c l) its []"

definition broad_codes :: "(pystr \<times> pystr) list \<Rightarrow> pystr list" where
  "broad_codes lab = sort [c \<leftarrow> map fst lab. length c = 2]"

definition narrow_codes :: "(pystr \<times> pystr) list \<Rightarrow> pystr list" where
  "narrow_codes lab = sort [c \<leftarrow> map fst lab. length c = 3 \<and> take 2 c \<in> set (map fst lab)]"

definition detailed_codes :: "(pystr \<times> pystr) list \<Rightarrow> pystr list" where
  "detailed_codes lab = sort [c \<leftarrow> map fst lab. length c = 4 \<and> take 3 c \<in> set (map fst lab)]"

text \<open>A list comprehension whose body may raise.\<close>

fun map_raise :: "('a \<Rightarrow> exn + 'b) \<Rightarrow> 'a list \<Rightarrow> exn + 'b list" where
  "map_raise f [] = Inr []"
| "map_raise f (x # xs) =
     (case f x of
        Inl e \<Rightarrow> Inl e
      | Inr y \<Rightarrow> (case map_raise f xs of Inl e \<Rightarrow> Inl e | Inr ys \<Rightarrow> Inr (y # ys)))"

definition topic_node ::
  "(pystr \<Rightarrow> pystr) \<Rightarrow> (pystr \<times> pystr) list \<Rightarrow> pystr \<Rightarrow> exn + topic" where
  "topic_node nfkd lab dc =
     (case getitem lab dc of
        Inl e \<Rightarrow> Inl e
      | Inr l \<Rightarrow>
          Inr \<lparr>node_value = dc @ py ''-'' @ slugify nfkd l, label = l, code = dc,
               subtopics = [\<lparr>node_value = dc @ py ''-other'', label = py ''Other'',
                              code = dc @ py ''-other''\<rparr>]\<rparr>)"

definition subject_node ::
  "(pystr \<Rightarrow> pystr) \<Rightarrow> (pystr \<times> pystr) list \<Rightarrow> pystr \<Rightarrow> exn + subject" where
  "subject_node nfkd lab nc =
     (case getitem lab nc of
        Inl e \<Rightarrow> Inl e
      | Inr l \<Rightarrow>
          (case map_raise (topic_node nfkd lab) [c \<leftarrow> detailed_codes lab. startswith c nc] of
             Inl e \<Rightarrow> Inl e
           | Inr ts \<Rightarrow>
               Inr \<lparr>node_value = nc @ py ''-'' @ slugify nfkd l, label = l, code = nc,
                    topics = ts\<rparr>))"

definition domain_node ::
  "(pystr \<Rightarrow> pystr) \<Rightarrow> (pystr \<times> pystr) list \<Rightarrow> pystr \<Rightarrow> exn + domain" where
  "domain_node nfkd lab bc =
     (case getitem lab bc of
        Inl e \<Rightarrow> Inl e
      | Inr l \<Rightarrow>
          (case map_raise (subject_node nfkd lab) [c \<leftarrow> narrow_codes lab. startswith c bc] of
             Inl e \<Rightarrow> Inl e
           | Inr ss \<Rightarrow>
               Inr \<lparr>node_value = bc @ py ''-'' @ slugify nfkd l, label = l, code = bc,
                    subjects = ss\<rparr>))"

text \<open>The part of \<open>main\<close> from the rows to the list \<open>out["domains"]\<close>.\<close>

definition domains :: "(nat \<Rightarrow> bool) \<Rightarrow> (pystr \<Rightarrow> pystr) \<Rightarrow> row list \<Rightarrow> exn + domain list" where
  "domains nd nfkd rows =
     (let lab = labels (items nd rows) in map_raise (domain_node nfkd lab) (broad_codes lab))"

text \<open>Rows for the ISCED rebuild: a full chain 01, 011, 0111, two codes without parent, a repeated code and an empty row.\<close>

definition isced_rows :: "row list" where
  "isced_rows =
     [\<lparr>Notation = Some (py ''F01''), Label = Some (py ''Education'')\<rparr>,
      \<lparr>Notation = Some (py ''F011''), Label = Some (py ''Education science'')\<rparr>,
      \<lparr>Notation = Some (py '' F0111 ''), Label = Some (py ''Teaching'')\<rparr>,
      \<lparr>Notation = Some (py ''F022''), Label = Some (py ''Orphan'')\<rparr>,
      \<lparr>Notation = Some (py ''F0231''), Label = Some (py ''Orphan too'')\<rparr>,
      \<lparr>Notation = Some (py ''F01''), Label = Some (py ''Again'')\<rparr>,
      \<lparr>Notation = None, Label = None\<rparr>]"

section \<open>cleanup-html-simple.py\<close>

text \<open>\<open>s.split('\n')\<close> and \<open>'\n'.join(lines)\<close>.\<close>

fun split_nl_acc :: "pystr \<Rightarrow> pystr \<Rightarrow> pystr list" where
  "split_nl_acc cur [] = [cur]"
| "split_nl_acc cur (c # cs) =
     (if c = 10 then cur # split_nl_acc [] cs else split_nl_acc (cur @ [c]) cs)"

definition split_nl :: "pystr \<Rightarrow> pystr list" where
  "split_nl s = split_nl_acc [] s"

fun join_nl :: "pystr list \<Rightarrow> pystr" where
  "join_nl [] = []"
| "join_nl [l] = l"
| "join_nl (l # m # ls) = l @ 10 # join_nl (m # ls)"

text \<open>The seven substitutions that come before the indentation pass, in order.\<close>

definition not_gt :: "nat \<Rightarrow> bool" where
  "not_gt c \<longleftrightarrow> c \<noteq> 62"

definition clean_subs :: "pystr \<Rightarrow> pystr" where
  "clean_subs content =
     re_sub [Lit (py ''  ''), Star (\<lambda>c. c = 32)] (\<lambda>m. py ''  '')
    (re_sub [Lit (py ''\<newline>''), Star isspace, Lit (py ''\<newline>''), Star isspace,
             Plus (\<lambda>c. c = 10)] (\<lambda>m. py ''\<newline>\<newline>'')
    (re_sub [Lit (py ''</a>''), Star isspace, Lit (py ''</nav>'')] (\<lambda>m. py ''</a>\<newline></nav>'')
    (re_sub [Lit (py ''</div>''), Star isspace, Lit (py ''<div''), Star not_gt, Lit (py ''>''),
             Star isspace, Lit (py ''<a'')] (\<lambda>m. py ''<a'')
    (re_sub [Lit (py ''<div''), Star not_gt, Lit (py ''>''), Star isspace, Lit (py ''<!--''),
             Star not_gt, Lit (py ''-->''), Star isspace, Lit (py ''</div>'')] (\<lambda>m. [])
    (re_sub [Lit (py ''<span''), Star not_gt, Lit (py ''>''), Star isspace, Lit (py ''</span>'')]
       (\<lambda>m. [])
    (re_sub [Lit (py ''<div''), Star not_gt, Lit (py ''>''), Star isspace, Lit (py ''</div>'')]
       (\<lambda>m. []) content))))))"

text \<open>\<open>stripped.split()[0][1:].split('>')[0]\<close> for a non-empty stripped line.\<close>

definition tag_name :: "pystr \<Rightarrow> pystr" where
  "tag_name stripped =
     takeWhile (\<lambda>c. c \<noteq> 62) (drop 1 (takeWhile (\<lambda>c. \<not> isspace c) stripped))"

definition opens_tag :: "pystr \<Rightarrow> bool" where
  "opens_tag stripped \<longleftrightarrow>
     startswith stripped (py ''<'') \<and> \<not> startswith stripped (py ''</'') \<and>
     \<not> endswith stripped (py ''/>'') \<and> \<not> startswith stripped (py ''<!'') \<and>
     tag_name stripped \<notin> set [py ''input'', py ''img'', py ''br'', py ''hr'', py ''meta'', py ''link'']"

text \<open>The indentation loop; \<open>indent_level\<close> is its running state.\<close>

fun fix_indent :: "nat \<Rightarrow> pystr list \<Rightarrow> pystr list" where
  "fix_indent indent_level [] = []"
| "fix_indent indent_level (line # ls) =
     (let stripped = strip line in
      if stripped = [] then [] # fix_indent indent_level ls
      else
        (let lvl = (if startswith stripped (py ''</'') then indent_level - 1 else indent_level)
         in (concat (replicate lvl (py ''  '')) @ stripped)
              # fix_indent (if opens_tag stripped then lvl + 1 else lvl) ls))"

definition reindent :: "pystr \<Rightarrow> pystr" where
  "reindent content = join_nl (fix_indent 0 (split_nl content))"

text \<open>The text filter applied by \<open>clean_html_structure_simple\<close> between read and write.\<close>

definition clean :: "pystr \<Rightarrow> pystr" where
  "clean content = reindent (clean_subs content)"

text \<open>The file-level function; an exception is caught and only reported.\<close>

definition clean_html_structure_simple :: "path \<Rightarrow> fsys \<Rightarrow> fsys" where
  "clean_html_structure_simple file_path fs =
     (case read_file fs file_path of
        Inl e \<Rightarrow> fs
      | Inr content \<Rightarrow> write_file file_path (clean content) fs)"

section \<open>Properties of the locators\<close>

lemma first_index_None: "first_index P xs = None \<longleftrightarrow> (\<forall>x \<in> set xs. \<not> P x)"
  by (induction xs) auto

lemma first_index_Some:
  "first_index P xs = Some i \<longleftrightarrow> i < length xs \<and> P (xs ! i) \<and> (\<forall>j < i. \<not> P (xs ! j))"
proof (induction xs arbitrary: i)
  case Nil
  show ?case by simp
next
  case (Cons x xs)
  show ?case
  proof (cases "P x")
    case True
    then show ?thesis
      by (cases i) auto
  next
    case False
    show ?thesis
    proof (cases i)
      case 0
      with False show ?thesis by auto
    next
      case (Suc k)
      have "(\<forall>j < Suc k. \<not> P ((x # xs) ! j)) \<longleftrightarrow> (\<forall>j < k. \<not> P (xs ! j))"
        using False by (auto simp: less_Suc_eq_0_disj)
      with False Suc Cons.IH [of k] show ?thesis by auto
    qed
  qed
qed

text \<open>
  C7: each locator scans the lines from the top and returns the index of the first line
  that satisfies the marker's test: the returned index is in range, its line passes the
  test, and no earlier line does.  This holds for \<open>find_line\<close> of the template-blueprint
  splitter, for the boundary search of the canvas-projection splitter and for \<open>find_line\<close>
  of the toolbar splitter.
\<close>

theorem locate_first_match:
  "(blueprint_find_line pattern src = Inr i \<longleftrightarrow>
      i < length (splitlines False src) \<and> py_in pattern (splitlines False src ! i) \<and>
      (\<forall>j < i. \<not> py_in pattern (splitlines False src ! j))) \<and>
   (boundary_line lines = Some i \<longleftrightarrow>
      i < length lines \<and>
      startswith (strip (lines ! i)) (py ''function estimateSessionPages'') \<and>
      (\<forall>j < i. \<not> startswith (strip (lines ! j)) (py ''function estimateSessionPages''))) \<and>
   (toolbar_find_line lines text = int i \<longleftrightarrow>
      i < length lines \<and> py_in text (lines ! i) \<and> (\<forall>j < i. \<not> py_in text (lines ! j)))"
proof (intro conjI)
  show "blueprint_find_line pattern src = Inr i \<longleftrightarrow>
      i < length (splitlines False src) \<and> py_in pattern (splitlines False src ! i) \<and>
      (\<forall>j < i. \<not> py_in pattern (splitlines False src ! j))"
    unfolding blueprint_find_line_def
    using first_index_Some [of "py_in pattern" "splitlines False src" i]
    by (auto split: option.splits)
  show "boundary_line lines = Some i \<longleftrightarrow>
      i < length lines \<and>
      startswith (strip (lines ! i)) (py ''function estimateSessionPages'') \<and>
      (\<forall>j < i. \<not> startswith (strip (lines ! j)) (py ''function estimateSessionPages''))"
    unfolding boundary_line_def by (rule first_index_Some)
  show "toolbar_find_line lines text = int i \<longleftrightarrow>
      i < length lines \<and> py_in text (lines ! i) \<and> (\<forall>j < i. \<not> py_in text (lines ! j))"
    unfolding toolbar_find_line_def
    using first_index_Some [of "py_in text" lines i]
    by (auto split: option.splits)
qed

theorem locate_first_match_witness:
  "blueprint_find_line (py ''function B('') (py ''const a = 1\<newline>function B() {\<newline>function B() {\<newline>'') = Inr 1 \<and>
   boundary_line [py ''// head\<newline>'', py ''  function estimateSessionPages(x) {\<newline>''] = Some 1 \<and>
   toolbar_find_line [py ''x\<newline>'', py ''function ToolButton<T>(\<newline>''] (py ''function ToolButton<'') = int 1"
proof -
  let ?src = "py ''const a = 1\<newline>function B() {\<newline>function B() {\<newline>''"
  let ?ls = "[py ''// head\<newline>'', py ''  function estimateSessionPages(x) {\<newline>'']"
  let ?tl = "[py ''x\<newline>'', py ''function ToolButton<T>(\<newline>'']"
  have a: "1 < length (splitlines False ?src) \<and> py_in (py ''function B('') (splitlines False ?src ! 1) \<and>
      (\<forall>j < 1. \<not> py_in (py ''function B('') (splitlines False ?src ! j))"
    by (simp add: py_def splitlines_def is_linebreak_def startswith_def)
  have b: "1 < length ?ls \<and>
      startswith (strip (?ls ! 1)) (py ''function estimateSessionPages'') \<and>
      (\<forall>j < 1. \<not> startswith (strip (?ls ! j)) (py ''function estimateSessionPages''))"
    by (simp add: py_def startswith_def strip_def lstrip_def rstrip_def isspace_def)
  have c: "1 < length ?tl \<and> py_in (py ''function ToolButton<'') (?tl ! 1) \<and>
      (\<forall>j < 1. \<not> py_in (py ''function ToolButton<'') (?tl ! j))"
    by (simp add: py_def startswith_def)
  from a b c show ?thesis
    using locate_first_match [of "py ''function B(''" ?src 1 ?ls "py ''function ToolButton<''"]
      locate_first_match [of "py ''function B(''" ?src 1 ?tl "py ''function ToolButton<''"]
    by blast
qed

lemma first_index_le:
  assumes "i < length xs" and "P (xs ! i)"
  shows "\<exists>k \<le> i. first_index P xs = Some k"
proof (cases "first_index P xs")
  case None
  with assms show ?thesis
    by (auto simp: first_index_None)
next
  case (Some k)
  then have "\<forall>j < k. \<not> P (xs ! j)"
    by (simp add: first_index_Some)
  with assms(2) have "k \<le> i"
    by (meson not_le_imp_less)
  with Some show ?thesis by simp
qed

text \<open>
  C2 as stated fails: no locator has an ambiguity check.  On a document whose first two
  lines both contain the marker, \<open>find_line\<close> of either splitter returns index 0 and
  raises nothing.
\<close>

theorem ambiguous_boundary_counterexample:
  "py_in (py ''function f('') (splitlines False (py ''function f(a) {}\<newline>function f(b) {}\<newline>'') ! 0) \<and>
   py_in (py ''function f('') (splitlines False (py ''function f(a) {}\<newline>function f(b) {}\<newline>'') ! 1) \<and>
   blueprint_find_line (py ''function f('') (py ''function f(a) {}\<newline>function f(b) {}\<newline>'') = Inr 0 \<and>
   toolbar_find_line (readlines (py ''function f(a) {}\<newline>function f(b) {}\<newline>'')) (py ''function f('') = 0"
  by (simp add: py_def splitlines_def readlines_def is_linebreak_def startswith_def
      blueprint_find_line_def toolbar_find_line_def)

text \<open>
  C2, amended: when two different lines match a marker, locating it does not fail; it
  returns the first matching line, whose index is at most that of the earlier candidate.
\<close>

theorem ambiguous_boundary_first_wins:
  assumes "i < j" and "j < length (splitlines False src)"
    and "py_in pattern (splitlines False src ! i)"
    and "py_in pattern (splitlines False src ! j)"
  shows "\<exists>k \<le> i. blueprint_find_line pattern src = Inr k \<and>
           py_in pattern (splitlines False src ! k) \<and>
           (\<forall>m < k. \<not> py_in pattern (splitlines False src ! m)) \<and>
           toolbar_find_line (splitlines False src) pattern = int k"
proof -
  from assms have "i < length (splitlines False src)" by simp
  with assms(3) obtain k where k: "k \<le> i"
      "first_index (py_in pattern) (splitlines False src) = Some k"
    using first_index_le [of i "splitlines False src" "py_in pattern"] by blast
  from k(2) have "py_in pattern (splitlines False src ! k) \<and>
      (\<forall>m < k. \<not> py_in pattern (splitlines False src ! m))"
    by (simp add: first_index_Some)
  with k show ?thesis
    by (auto simp: blueprint_find_line_def toolbar_find_line_def)
qed

theorem ambiguous_boundary_first_wins_witness:
  "\<exists>k \<le> 0. blueprint_find_line (py ''f('') (py ''f(a)\<newline>f(b)\<newline>'') = Inr k \<and>
      py_in (py ''f('') (splitlines False (py ''f(a)\<newline>f(b)\<newline>'') ! k) \<and>
      (\<forall>m < k. \<not> py_in (py ''f('') (splitlines False (py ''f(a)\<newline>f(b)\<newline>'') ! m)) \<and>
      toolbar_find_line (splitlines False (py ''f(a)\<newline>f(b)\<newline>'')) (py ''f('') = int k"
proof -
  let ?src = "py ''f(a)\<newline>f(b)\<newline>''"
  have h: "(0::nat) < 1" "1 < length (splitlines False ?src)"
    "py_in (py ''f('') (splitlines False ?src ! 0)"
    "py_in (py ''f('') (splitlines False ?src ! 1)"
    by (simp_all add: py_def splitlines_def is_linebreak_def startswith_def)
  show ?thesis
    by (rule ambiguous_boundary_first_wins [OF h])
qed

section \<open>Partitioning\<close>

lemma readlines_acc_concat: "concat (readlines_acc cur s) = cur @ s"
  by (induction s arbitrary: cur) auto

lemma concat_readlines: "concat (readlines s) = s"
  by (simp add: readlines_def readlines_acc_concat)

lemma splitlines_acc_concat: "k \<Longrightarrow> concat (splitlines_acc k cur s) = cur @ s"
  by (induction k cur s rule: splitlines_acc.induct) auto

lemma concat_splitlines: "concat (splitlines True s) = s"
  by (simp add: splitlines_def splitlines_acc_concat)

lemma take_slice: "a \<le> b \<Longrightarrow> take a xs @ slice a b xs = take b xs"
  using take_add [of a "b - a" xs] by (simp add: slice_def)

lemma concat_take_slice:
  "a \<le> b \<Longrightarrow> concat (take a xs) @ concat (slice a b xs) = concat (take b xs)"
  using take_slice [of a b xs] by (metis concat_append)

lemma slice_to_end: "slice a (length xs) xs = drop a xs"
  by (simp add: slice_def)

lemma toolbar_reordered_lines:
  "readlines toolbar_reordered =
     [py ''function ToolButton<T>() {}\<newline>'', opt_primitives_marker @ py ''\<newline>'',
      opts_strip_marker @ py ''\<newline>'', py ''export function ToolBar() {}\<newline>'']"
  by (simp add: toolbar_reordered_def readlines_def py_def opt_primitives_marker_def
      opts_strip_marker_def)

lemma toolbar_reordered_offsets:
  "toolbar_find_line (readlines toolbar_reordered) opt_primitives_marker = 1"
  "toolbar_find_line (readlines toolbar_reordered) opts_strip_marker = 2"
  "toolbar_find_line (readlines toolbar_reordered) tool_button_marker = 0"
  "toolbar_find_line (readlines toolbar_reordered) toolbar_marker = 3"
  by (simp_all add: toolbar_reordered_lines toolbar_find_line_def py_def startswith_def
      opt_primitives_marker_def opts_strip_marker_def tool_button_marker_def toolbar_marker_def)

text \<open>
  C1 as stated fails.  In \<^verbatim>\<open>split-toolbar.py\<close> all four markers of the document
  \<open>toolbar_reordered\<close> are found (the run ends with status 0), with the option
  primitives at line 1 and \<open>ToolButton\<close> at line 0; the three segments
  \<open>lines[:1]\<close>, \<open>lines[1:0]\<close> and \<open>lines[0:]\<close> do not concatenate to the document
  (line 0 occurs twice).
\<close>

theorem partition_totality_counterexample:
  "toolbar_find_line (readlines toolbar_reordered) opt_primitives_marker = 1 \<and>
   toolbar_find_line (readlines toolbar_reordered) tool_button_marker = 0 \<and>
   fst (split_toolbar \<lparr>files = [toolbar_path \<mapsto> toolbar_reordered], written = []\<rparr>) = None \<and>
   concat (kept_start (readlines toolbar_reordered) 1 @
           options_lines (readlines toolbar_reordered) 1 0 @
           kept_end (readlines toolbar_reordered) 0) \<noteq> toolbar_reordered"
proof -
  have "length (concat (kept_start (readlines toolbar_reordered) 1 @
           options_lines (readlines toolbar_reordered) 1 0 @
           kept_end (readlines toolbar_reordered) 0)) \<noteq> length toolbar_reordered"
    by (simp add: toolbar_reordered_lines kept_start_def kept_end_def options_lines_def
        slice_def)
       (simp add: toolbar_reordered_def py_def opt_primitives_marker_def opts_strip_marker_def)
  then have "concat (kept_start (readlines toolbar_reordered) 1 @
           options_lines (readlines toolbar_reordered) 1 0 @
           kept_end (readlines toolbar_reordered) 0) \<noteq> toolbar_reordered"
    by metis
  moreover have
    "fst (split_toolbar \<lparr>files = [toolbar_path \<mapsto> toolbar_reordered], written = []\<rparr>) = None"
    by (simp add: split_toolbar_def read_file_def Let_def toolbar_reordered_offsets)
  ultimately show ?thesis
    by (simp add: toolbar_reordered_offsets)
qed

text \<open>
  C1, amended: when the located boundaries are in document order, the segments cut by the
  partitioning step concatenate to the document as read.  For the single boundary of the
  canvas-projection splitter this holds without condition; for the toolbar splitter it
  needs \<open>opt_primitives_start \<le> tool_button_start\<close>; for the template-blueprint splitter
  it needs the six offsets in the order props, types, media, slot views, live, main.
\<close>

theorem partition_totality_in_order:
  "concat (take b (readlines text) @ projector_lines (readlines text) b) = text \<and>
   (opt_primitives_start \<le> tool_button_start \<longrightarrow>
      concat (kept_start (readlines text) opt_primitives_start @
              options_lines (readlines text) opt_primitives_start tool_button_start @
              kept_end (readlines text) tool_button_start) = text) \<and>
   (props_start off \<le> types_start off \<and> types_start off \<le> media_start off \<and>
    media_start off \<le> slot_views_start off \<and> slot_views_start off \<le> live_start off \<and>
    live_start off \<le> main_start off \<longrightarrow>
      concat (blueprint_blocks src off) = src)"
proof (intro conjI impI)
  show "concat (take b (readlines text) @ projector_lines (readlines text) b) = text"
    by (simp add: projector_lines_def concat_readlines)
next
  assume "opt_primitives_start \<le> tool_button_start"
  then have "kept_start (readlines text) opt_primitives_start @
      options_lines (readlines text) opt_primitives_start tool_button_start @
      kept_end (readlines text) tool_button_start = readlines text"
    using take_slice [of opt_primitives_start tool_button_start "readlines text"]
    by (simp add: kept_start_def options_lines_def kept_end_def flip: append_assoc)
  then show "concat (kept_start (readlines text) opt_primitives_start @
             options_lines (readlines text) opt_primitives_start tool_button_start @
             kept_end (readlines text) tool_button_start) = text"
    by (simp only: concat_readlines)
next
  let ?L = "splitlines True src"
  assume o: "props_start off \<le> types_start off \<and> types_start off \<le> media_start off \<and>
    media_start off \<le> slot_views_start off \<and> slot_views_start off \<le> live_start off \<and>
    live_start off \<le> main_start off"
  have "concat (blueprint_blocks src off) =
      concat (take (props_start off) ?L) @ concat (slice (props_start off) (types_start off) ?L) @
      concat (slice (types_start off) (media_start off) ?L) @
      concat (slice (media_start off) (slot_views_start off) ?L) @
      concat (slice (slot_views_start off) (live_start off) ?L) @
      concat (slice (live_start off) (main_start off) ?L) @
      concat (drop (main_start off) ?L)"
    by (simp add: blueprint_blocks_def extract_lines_def slice_to_end) (simp add: slice_def)
  also have "\<dots> = concat (take (main_start off) ?L) @ concat (drop (main_start off) ?L)"
    using o by (simp add: concat_take_slice flip: append_assoc)
  also have "\<dots> = concat ?L"
    by (simp flip: concat_append)
  finally show "concat (blueprint_blocks src off) = src"
    by (simp add: concat_splitlines)
qed

theorem partition_totality_in_order_witness:
  "concat (take 1 (readlines (py ''a\<newline>b\<newline>c\<newline>'')) @
           projector_lines (readlines (py ''a\<newline>b\<newline>c\<newline>'')) 1) = py ''a\<newline>b\<newline>c\<newline>'' \<and>
   concat (kept_start (readlines (py ''a\<newline>b\<newline>c\<newline>'')) 1 @
           options_lines (readlines (py ''a\<newline>b\<newline>c\<newline>'')) 1 2 @
           kept_end (readlines (py ''a\<newline>b\<newline>c\<newline>'')) 2) = py ''a\<newline>b\<newline>c\<newline>'' \<and>
   concat (blueprint_blocks (py ''i\<newline>p\<newline>t\<newline>m\<newline>s\<newline>l\<newline>j\<newline>'')
      \<lparr>types_start = 2, media_start = 3, slot_views_start = 4, live_start = 5,
       main_start = 6, props_start = 1\<rparr>) = py ''i\<newline>p\<newline>t\<newline>m\<newline>s\<newline>l\<newline>j\<newline>''"
  using partition_totality_in_order [of 1 "py ''a\<newline>b\<newline>c\<newline>''" 1 2
      "\<lparr>types_start = 2, media_start = 3, slot_views_start = 4, live_start = 5,
        main_start = 6, props_start = 1\<rparr>" "py ''i\<newline>p\<newline>t\<newline>m\<newline>s\<newline>l\<newline>j\<newline>''"]
  by simp

section \<open>Boundary ownership\<close>

text \<open>
  C6 as stated fails for the toolbar splitter.  On \<open>toolbar_reordered\<close> the boundary
  \<open>ToolButton\<close> resolves to line 0 and the option primitives to line 1; line 0 is then
  both the only line of \<open>kept_start\<close> and the first line of \<open>kept_end\<close>, and the segment
  opened by the line-1 marker is empty, so that marker's line is not its first line.
\<close>

theorem boundary_ownership_counterexample:
  "toolbar_find_line (readlines toolbar_reordered) opts_strip_marker = 2 \<and>
   toolbar_find_line (readlines toolbar_reordered) toolbar_marker = 3 \<and>
   kept_start (readlines toolbar_reordered) 1 = [readlines toolbar_reordered ! 0] \<and>
   kept_end (readlines toolbar_reordered) 0 ! 0 = readlines toolbar_reordered ! 0 \<and>
   options_lines (readlines toolbar_reordered) 1 0 = []"
  by (simp add: toolbar_reordered_offsets)
     (simp add: toolbar_reordered_lines kept_start_def kept_end_def options_lines_def slice_def)

text \<open>
  C6, amended: the single boundary \<open>b\<close> of the canvas-projection splitter cuts the lines
  into \<open>[0, b)\<close> and \<open>[b, n)\<close>, the marker's line being the first line of the second
  segment and each line lying in exactly one segment.  For the two boundaries of the
  toolbar splitter the same holds, with ranges \<open>[0, i)\<close>, \<open>[i, j)\<close> and \<open>[j, n)\<close>,
  provided the boundaries resolve in document order (\<open>i \<le> j\<close>).
\<close>

theorem boundary_ownership:
  "(boundary_line lines = Some b \<longrightarrow>
      b < length lines \<and> take b lines @ projector_lines lines b = lines \<and>
      length (take b lines) = b \<and> length (projector_lines lines b) = length lines - b \<and>
      projector_lines lines b ! 0 = lines ! b \<and>
      startswith (strip (projector_lines lines b ! 0)) (py ''function estimateSessionPages'')) \<and>
   (toolbar_find_line lines opt_primitives_marker = int i \<and>
    toolbar_find_line lines tool_button_marker = int j \<and> i \<le> j \<longrightarrow>
      j < length lines \<and>
      kept_start lines i @ options_lines lines i j @ kept_end lines j = lines \<and>
      length (kept_start lines i) = i \<and> length (options_lines lines i j) = j - i \<and>
      length (kept_end lines j) = length lines - j \<and>
      kept_end lines j ! 0 = lines ! j \<and>
      (i < j \<longrightarrow> options_lines lines i j ! 0 = lines ! i))"
proof (intro conjI impI)
  assume "boundary_line lines = Some b"
  then have b: "b < length lines"
      "startswith (strip (lines ! b)) (py ''function estimateSessionPages'')"
    by (simp_all add: boundary_line_def first_index_Some)
  from b(1) show "b < length lines" .
  show "take b lines @ projector_lines lines b = lines"
    by (simp add: projector_lines_def)
  from b(1) show "length (take b lines) = b" by simp
  show "length (projector_lines lines b) = length lines - b"
    by (simp add: projector_lines_def)
  from b(1) show "projector_lines lines b ! 0 = lines ! b"
    by (simp add: projector_lines_def)
  with b(2) show "startswith (strip (projector_lines lines b ! 0))
      (py ''function estimateSessionPages'')"
    by simp
next
  assume h: "toolbar_find_line lines opt_primitives_marker = int i \<and>
    toolbar_find_line lines tool_button_marker = int j \<and> i \<le> j"
  then have "first_index (py_in tool_button_marker) lines = Some j"
    by (auto simp: toolbar_find_line_def split: option.splits)
  then have j: "j < length lines"
    by (simp add: first_index_Some)
  from h have ij: "i \<le> j" by simp
  from j show "j < length lines" .
  from ij show "kept_start lines i @ options_lines lines i j @ kept_end lines j = lines"
    using take_slice [of i j lines]
    by (simp add: kept_start_def options_lines_def kept_end_def flip: append_assoc)
  from ij j show "length (kept_start lines i) = i"
    by (simp add: kept_start_def)
  from ij j show "length (options_lines lines i j) = j - i"
    by (simp add: options_lines_def slice_def)
  show "length (kept_end lines j) = length lines - j"
    by (simp add: kept_end_def)
  from j show "kept_end lines j ! 0 = lines ! j"
    by (simp add: kept_end_def)
  show "options_lines lines i j ! 0 = lines ! i" if "i < j"
    using that j by (simp add: options_lines_def slice_def)
qed

theorem boundary_ownership_witness:
  "boundary_line [py ''a\<newline>'', py ''function estimateSessionPages() {\<newline>''] = Some 1 \<and>
   take 1 [py ''a\<newline>'', py ''function estimateSessionPages() {\<newline>''] @
   projector_lines [py ''a\<newline>'', py ''function estimateSessionPages() {\<newline>''] 1 =
     [py ''a\<newline>'', py ''function estimateSessionPages() {\<newline>''] \<and>
   projector_lines [py ''a\<newline>'', py ''function estimateSessionPages() {\<newline>''] 1 ! 0 =
     py ''function estimateSessionPages() {\<newline>'' \<and>
   toolbar_find_line [py ''x\<newline>'', opt_primitives_marker, tool_button_marker]
      opt_primitives_marker = int 1 \<and>
   toolbar_find_line [py ''x\<newline>'', opt_primitives_marker, tool_button_marker]
      tool_button_marker = int 2 \<and>
   kept_start [py ''x\<newline>'', opt_primitives_marker, tool_button_marker] 1 @
   options_lines [py ''x\<newline>'', opt_primitives_marker, tool_button_marker] 1 2 @
   kept_end [py ''x\<newline>'', opt_primitives_marker, tool_button_marker] 2 =
     [py ''x\<newline>'', opt_primitives_marker, tool_button_marker] \<and>
   options_lines [py ''x\<newline>'', opt_primitives_marker, tool_button_marker] 1 2 ! 0 =
     opt_primitives_marker \<and>
   kept_end [py ''x\<newline>'', opt_primitives_marker, tool_button_marker] 2 ! 0 = tool_button_marker"
proof -
  let ?c = "[py ''a\<newline>'', py ''function estimateSessionPages() {\<newline>'']"
  let ?l = "[py ''x\<newline>'', opt_primitives_marker, tool_button_marker]"
  have c: "boundary_line ?c = Some 1"
    by (simp add: boundary_line_def py_def startswith_def strip_def lstrip_def rstrip_def
        isspace_def)
  have l: "toolbar_find_line ?l opt_primitives_marker = int 1"
    "toolbar_find_line ?l tool_button_marker = int 2"
    by (simp_all add: toolbar_find_line_def py_def startswith_def opt_primitives_marker_def
        tool_button_marker_def)
  have o: "(1::nat) \<le> 2" "(1::nat) < 2" by simp_all
  from c l o show ?thesis
    using boundary_ownership [of ?c 1 1 2] boundary_ownership [of ?l 0 1 2]
    by simp
qed

section \<open>Missing boundaries\<close>

lemma blueprint_find_line_missing:
  "\<forall>line \<in> set (splitlines False src). \<not> py_in m line \<Longrightarrow>
     blueprint_find_line m src = Inl ValueError"
  using first_index_None [of "py_in m" "splitlines False src"]
  by (simp add: blueprint_find_line_def)

lemma blueprint_find_line_error: "blueprint_find_line m src = Inl e \<Longrightarrow> e = ValueError"
  by (auto simp: blueprint_find_line_def split: option.splits)

lemma locate_blueprint_missing:
  assumes "m \<in> set blueprint_markers"
    and "\<forall>line \<in> set (splitlines False src). \<not> py_in m line"
  shows "locate_blueprint src = Inl ValueError"
proof -
  from assms(2) have "blueprint_find_line m src = Inl ValueError"
    by (rule blueprint_find_line_missing)
  with assms(1) show ?thesis
    unfolding locate_blueprint_def blueprint_markers_def
    by (auto split: sum.splits dest: blueprint_find_line_error)
qed

lemma toolbar_find_line_missing:
  "\<forall>line \<in> set lines. \<not> py_in m line \<Longrightarrow> toolbar_find_line lines m = - 1"
  using first_index_None [of "py_in m" lines]
  by (simp add: toolbar_find_line_def)

text \<open>
  C3: when a required marker matches no line of the document, the run ends with a
  non-zero process result and the file system is exactly as before: no file content has
  changed and nothing was written.  This holds for the boundary of the canvas-projection
  splitter, for the import anchor and the block pattern of \<^verbatim>\<open>update-route.py\<close>, for
  each of the four markers of the toolbar splitter and for each of the six search strings
  of the template-blueprint splitter.
\<close>

theorem missing_boundary_aborts:
  "(files fs canvas_path = Some text \<and>
    (\<forall>line \<in> set (readlines text).
        \<not> startswith (strip line) (py ''function estimateSessionPages'')) \<longrightarrow>
      split_canvas_projection fs = (Some (SysExit 1), fs)) \<and>
   (files fs route_path = Some content \<and> \<not> py_in old_anchor content \<longrightarrow>
      update_route fs = (Some (SysExit 1), fs)) \<and>
   (files fs route_path = Some content \<and>
    re_search route_pattern (replace1 old_anchor (old_anchor @ new_imports) content) = None \<longrightarrow>
      update_route fs = (Some (SysExit 1), fs)) \<and>
   (files fs toolbar_path = Some ttext \<and>
    m \<in> {opt_primitives_marker, opts_strip_marker, tool_button_marker, toolbar_marker} \<and>
    (\<forall>line \<in> set (readlines ttext). \<not> py_in m line) \<longrightarrow>
      split_toolbar fs = (Some (SysExit 1), fs)) \<and>
   (files fs MAIN = Some src \<and> k \<in> set blueprint_markers \<and>
    (\<forall>line \<in> set (splitlines False src). \<not> py_in k line) \<longrightarrow>
      split_template_blueprint fs = (Some (Uncaught ValueError), fs)) \<and>
   exit_status (Some (SysExit 1)) \<noteq> 0 \<and> exit_status (Some (Uncaught ValueError)) \<noteq> 0"
proof (intro conjI impI)
  assume "files fs canvas_path = Some text \<and>
    (\<forall>line \<in> set (readlines text).
        \<not> startswith (strip line) (py ''function estimateSessionPages''))"
  then have "files fs canvas_path = Some text" "boundary_line (readlines text) = None"
    by (simp_all add: boundary_line_def first_index_None)
  then show "split_canvas_projection fs = (Some (SysExit 1), fs)"
    by (simp add: split_canvas_projection_def read_file_def)
next
  assume "files fs route_path = Some content \<and> \<not> py_in old_anchor content"
  then show "update_route fs = (Some (SysExit 1), fs)"
    by (simp add: update_route_def read_file_def)
next
  assume "files fs route_path = Some content \<and>
    re_search route_pattern (replace1 old_anchor (old_anchor @ new_imports) content) = None"
  then show "update_route fs = (Some (SysExit 1), fs)"
    by (simp add: update_route_def read_file_def)
next
  assume h: "files fs toolbar_path = Some ttext \<and>
    m \<in> {opt_primitives_marker, opts_strip_marker, tool_button_marker, toolbar_marker} \<and>
    (\<forall>line \<in> set (readlines ttext). \<not> py_in m line)"
  then have "toolbar_find_line (readlines ttext) m = - 1"
    by (simp add: toolbar_find_line_missing)
  with h show "split_toolbar fs = (Some (SysExit 1), fs)"
    by (auto simp: split_toolbar_def read_file_def Let_def)
next
  assume "files fs MAIN = Some src \<and> k \<in> set blueprint_markers \<and>
    (\<forall>line \<in> set (splitlines False src). \<not> py_in k line)"
  then have "files fs MAIN = Some src" "locate_blueprint src = Inl ValueError"
    using locate_blueprint_missing [of k src] by simp_all
  then show "split_template_blueprint fs = (Some (Uncaught ValueError), fs)"
    by (simp add: split_template_blueprint_def read_file_def)
qed simp_all

theorem missing_boundary_aborts_witness:
  "split_canvas_projection \<lparr>files = (\<lambda>p. Some (py ''x\<newline>y'')), written = []\<rparr> =
     (Some (SysExit 1), \<lparr>files = (\<lambda>p. Some (py ''x\<newline>y'')), written = []\<rparr>) \<and>
   update_route \<lparr>files = (\<lambda>p. Some (py ''x\<newline>y'')), written = []\<rparr> =
     (Some (SysExit 1), \<lparr>files = (\<lambda>p. Some (py ''x\<newline>y'')), written = []\<rparr>) \<and>
   split_toolbar \<lparr>files = (\<lambda>p. Some (py ''x\<newline>y'')), written = []\<rparr> =
     (Some (SysExit 1), \<lparr>files = (\<lambda>p. Some (py ''x\<newline>y'')), written = []\<rparr>) \<and>
   split_template_blueprint \<lparr>files = (\<lambda>p. Some (py ''x\<newline>y'')), written = []\<rparr> =
     (Some (Uncaught ValueError), \<lparr>files = (\<lambda>p. Some (py ''x\<newline>y'')), written = []\<rparr>)"
proof -
  let ?fs = "\<lparr>files = (\<lambda>p. Some (py ''x\<newline>y'')), written = []\<rparr>"
  have f: "\<And>p. files ?fs p = Some (py ''x\<newline>y'')" by simp
  have r: "readlines (py ''x\<newline>y'') = [py ''x\<newline>'', py ''y'']"
    by (simp add: readlines_def py_def)
  have s: "splitlines False (py ''x\<newline>y'') = [py ''x'', py ''y'']"
    by (simp add: splitlines_def py_def is_linebreak_def)
  have 1: "\<forall>line \<in> set (readlines (py ''x\<newline>y'')).
      \<not> startswith (strip line) (py ''function estimateSessionPages'')"
    unfolding r by (simp add: py_def startswith_def strip_def lstrip_def rstrip_def isspace_def)
  have 2: "\<not> py_in old_anchor (py ''x\<newline>y'')"
    by (simp add: old_anchor_def py_def startswith_def)
  have 3: "\<forall>line \<in> set (readlines (py ''x\<newline>y'')). \<not> py_in tool_button_marker line"
    unfolding r by (simp add: tool_button_marker_def py_def startswith_def)
  have 4: "py ''function LiveNestedSlot({'' \<in> set blueprint_markers"
    by (simp add: blueprint_markers_def)
  have 5: "\<forall>line \<in> set (splitlines False (py ''x\<newline>y'')).
      \<not> py_in (py ''function LiveNestedSlot({'') line"
    unfolding s by (simp add: py_def startswith_def)
  from f 1 2 3 4 5 show ?thesis
    using missing_boundary_aborts [of ?fs "py ''x\<newline>y''" "py ''x\<newline>y''" "py ''x\<newline>y''"
        tool_button_marker "py ''x\<newline>y''" "py ''function LiveNestedSlot({''"]
    by blast
qed

section \<open>Emission\<close>

lemma files_emit: "files (emit ws fs) = files fs ++ map_of (rev ws)"
proof (induction ws arbitrary: fs)
  case Nil
  show ?case by simp
next
  case (Cons w ws)
  obtain p t where w: "w = (p, t)" by (cases w)
  have "files (emit (w # ws) fs) = (files fs)(p \<mapsto> t) ++ map_of (rev ws)"
    by (simp add: w Cons.IH write_file_def fun_upd_def)
  also have "\<dots> = files fs ++ map_of (rev (w # ws))"
    by (auto simp: w map_add_def fun_eq_iff split: option.splits)
  finally show ?case .
qed

lemma map_add_idem: "a ++ m ++ m = a ++ m"
  by (simp add: map_add_def fun_eq_iff split: option.splits)

text \<open>
  C8: emitting the same list of (destination, content) writes a second time leaves every
  file with the content it had after the first run, whatever the file system held
  before; in particular this holds for the two writes of the canvas-projection splitter
  with fixed segment contents.
\<close>

theorem emit_idempotent:
  "files (emit ws (emit ws fs)) = files (emit ws fs) \<and>
   files (emit [(canvas_path, concat projection), (projector_path, concat projector)]
            (emit [(canvas_path, concat projection), (projector_path, concat projector)] fs)) =
   files (emit [(canvas_path, concat projection), (projector_path, concat projector)] fs)"
  by (simp only: files_emit map_add_idem simp_thms)

section \<open>The navigation-class updater\<close>

text \<open>
  C9: the updater writes the file back only when the substitutions change its content.
  If they are the identity on the content, the file system is left exactly as it was
  (nothing is written) and the result is \<open>False\<close>; if they change it, the new content is
  written and the result is \<open>True\<close>; and whenever the file system differs after the call,
  the substitutions did change the content.
\<close>

theorem nav_noop_frame:
  "(files fs file_path = Some c \<and> nav_subs uni c = c \<longrightarrow>
      update_navigation_classes uni file_path fs = (fs, False)) \<and>
   (files fs file_path = Some c \<and> nav_subs uni c \<noteq> c \<longrightarrow>
      update_navigation_classes uni file_path fs =
        (write_file file_path (nav_subs uni c) fs, True)) \<and>
   (fst (update_navigation_classes uni file_path fs) \<noteq> fs \<longrightarrow>
      (\<exists>d. files fs file_path = Some d \<and> nav_subs uni d \<noteq> d))"
  by (auto simp: update_navigation_classes_def read_file_def Let_def split: option.splits)

theorem nav_noop_frame_witness:
  "update_navigation_classes (\<lambda>c. False) ''index.html''
      \<lparr>files = [''index.html'' \<mapsto> py ''<a class=link>x</a>''], written = []\<rparr> =
     (\<lparr>files = [''index.html'' \<mapsto> py ''<a class=link>x</a>''], written = []\<rparr>, False) \<and>
   update_navigation_classes (\<lambda>c. False) ''index.html''
      \<lparr>files = [''index.html'' \<mapsto> py ''<li class=nav__item>''], written = []\<rparr> =
     (write_file ''index.html'' (py ''<li class=ul__item>'')
        \<lparr>files = [''index.html'' \<mapsto> py ''<li class=nav__item>''], written = []\<rparr>, True)"
proof -
  have a: "nav_subs (\<lambda>c. False) (py ''<a class=link>x</a>'') = py ''<a class=link>x</a>''"
    by code_simp
  have b: "nav_subs (\<lambda>c. False) (py ''<li class=nav__item>'') = py ''<li class=ul__item>''"
    by code_simp
  have c: "py ''<li class=ul__item>'' \<noteq> py ''<li class=nav__item>''"
    by code_simp
  show ?thesis
    using a b c
      nav_noop_frame [of "\<lparr>files = [''index.html'' \<mapsto> py ''<a class=link>x</a>''], written = []\<rparr>"
        "''index.html''" "py ''<a class=link>x</a>''" "\<lambda>c. False"]
      nav_noop_frame [of "\<lparr>files = [''index.html'' \<mapsto> py ''<li class=nav__item>''], written = []\<rparr>"
        "''index.html''" "py ''<li class=nav__item>''" "\<lambda>c. False"]
    by simp
qed

section \<open>The ISCED hierarchy\<close>

lemma map_raise_in: "map_raise f xs = Inr ys \<Longrightarrow> y \<in> set ys \<Longrightarrow> \<exists>x \<in> set xs. f x = Inr y"
  by (induction xs arbitrary: ys) (auto split: sum.splits)

lemma map_raise_total:
  "(\<And>x. x \<in> set xs \<Longrightarrow> \<exists>y. f x = Inr y) \<Longrightarrow> \<exists>ys. map_raise f xs = Inr ys"
  by (induction xs) (fastforce split: sum.splits)+

lemma getitem_total: "k \<in> fst ` set d \<Longrightarrow> \<exists>v. getitem d k = Inr v"
  by (cases "map_of d k") (auto simp: getitem_def map_of_eq_None_iff)

lemma keys_setdefault: "fst ` set (setdefault d k v) = insert k (fst ` set d)"
proof (cases "map_of d k")
  case None
  then show ?thesis by (simp add: setdefault_def)
next
  case (Some w)
  then have "k \<in> fst ` set d"
    by (metis map_of_eq_None_iff option.distinct(1))
  with Some show ?thesis by (auto simp: setdefault_def)
qed

lemma keys_fold_setdefault:
  "fst ` set (fold (\<lambda>(c, l) d. setdefault d c l) its d0) = fst ` set its \<union> fst ` set d0"
proof (induction its arbitrary: d0)
  case Nil
  show ?case by simp
next
  case (Cons a its)
  obtain c l where a: "a = (c, l)" by (cases a)
  show ?case
    by (simp add: a Cons.IH keys_setdefault)
qed

lemma keys_labels: "fst ` set (labels its) = fst ` set its"
  by (simp add: labels_def keys_fold_setdefault)

lemma in_broad_codes:
  "c \<in> set (broad_codes lab) \<longleftrightarrow> c \<in> fst ` set lab \<and> length c = 2"
  by (auto simp: broad_codes_def)

lemma in_narrow_codes:
  "c \<in> set (narrow_codes lab) \<longleftrightarrow>
     c \<in> fst ` set lab \<and> length c = 3 \<and> take 2 c \<in> fst ` set lab"
  by (auto simp: narrow_codes_def)

lemma in_detailed_codes:
  "c \<in> set (detailed_codes lab) \<longleftrightarrow>
     c \<in> fst ` set lab \<and> length c = 4 \<and> take 3 c \<in> fst ` set lab"
  by (auto simp: detailed_codes_def)

lemma topic_node_total:
  "dc \<in> fst ` set lab \<Longrightarrow> \<exists>t. topic_node nfkd lab dc = Inr t"
  using getitem_total [of dc lab] by (auto simp: topic_node_def)

lemma topic_node_code: "topic_node nfkd lab dc = Inr t \<Longrightarrow> code t = dc"
  by (auto simp: topic_node_def split: sum.splits)

lemma subject_node_total:
  assumes "nc \<in> fst ` set lab"
  shows "\<exists>s. subject_node nfkd lab nc = Inr s"
proof -
  obtain l where l: "getitem lab nc = Inr l"
    using getitem_total [OF assms] by blast
  have "\<exists>ts. map_raise (topic_node nfkd lab) [c \<leftarrow> detailed_codes lab. startswith c nc] = Inr ts"
    by (rule map_raise_total) (simp add: in_detailed_codes topic_node_total)
  with l show ?thesis
    by (auto simp: subject_node_def)
qed

lemma subject_node_Inr:
  assumes "subject_node nfkd lab nc = Inr s"
  shows "\<exists>ts. map_raise (topic_node nfkd lab) [c \<leftarrow> detailed_codes lab. startswith c nc] = Inr ts \<and>
           code s = nc \<and> topics s = ts"
proof (cases "getitem lab nc")
  case (Inl e)
  with assms show ?thesis by (simp add: subject_node_def)
next
  case l: (Inr l)
  show ?thesis
  proof (cases "map_raise (topic_node nfkd lab) [c \<leftarrow> detailed_codes lab. startswith c nc]")
    case (Inl e)
    with assms l show ?thesis by (simp add: subject_node_def)
  next
    case (Inr ts)
    with assms l have "s = \<lparr>node_value = nc @ py ''-'' @ slugify nfkd l, label = l, code = nc,
        topics = ts\<rparr>"
      by (simp add: subject_node_def)
    then have "code s = nc" "topics s = ts" by simp_all
    with Inr show ?thesis by simp
  qed
qed

lemma domain_node_Inr:
  assumes "domain_node nfkd lab bc = Inr d"
  shows "\<exists>ss. map_raise (subject_node nfkd lab) [c \<leftarrow> narrow_codes lab. startswith c bc] = Inr ss \<and>
           code d = bc \<and> subjects d = ss"
proof (cases "getitem lab bc")
  case (Inl e)
  with assms show ?thesis by (simp add: domain_node_def)
next
  case l: (Inr l)
  show ?thesis
  proof (cases "map_raise (subject_node nfkd lab) [c \<leftarrow> narrow_codes lab. startswith c bc]")
    case (Inl e)
    with assms l show ?thesis by (simp add: domain_node_def)
  next
    case (Inr ss)
    with assms l have "d = \<lparr>node_value = bc @ py ''-'' @ slugify nfkd l, label = l, code = bc,
        subjects = ss\<rparr>"
      by (simp add: domain_node_def)
    then have "code d = bc" "subjects d = ss" by simp_all
    with Inr show ?thesis by simp
  qed
qed

lemma subject_node_code:
  assumes "subject_node nfkd lab nc = Inr s"
  shows "code s = nc"
    and "t \<in> set (topics s) \<Longrightarrow>
           code t \<in> set (detailed_codes lab) \<and> take (length nc) (code t) = nc"
proof -
  from subject_node_Inr [OF assms] obtain ts where
      ts: "map_raise (topic_node nfkd lab) [c \<leftarrow> detailed_codes lab. startswith c nc] = Inr ts"
      and s: "code s = nc" "topics s = ts"
    by blast
  from s show "code s = nc" by simp
  assume "t \<in> set (topics s)"
  with s have "t \<in> set ts" by simp
  from map_raise_in [OF ts this] obtain dc where
      dc: "dc \<in> set [c \<leftarrow> detailed_codes lab. startswith c nc]" "topic_node nfkd lab dc = Inr t"
    by blast
  from dc(2) have "code t = dc" by (rule topic_node_code)
  with dc(1) show "code t \<in> set (detailed_codes lab) \<and> take (length nc) (code t) = nc"
    by (simp add: startswith_def)
qed

lemma domain_node_total:
  assumes "bc \<in> fst ` set lab"
  shows "\<exists>d. domain_node nfkd lab bc = Inr d"
proof -
  obtain l where l: "getitem lab bc = Inr l"
    using getitem_total [OF assms] by blast
  have "\<exists>ss. map_raise (subject_node nfkd lab) [c \<leftarrow> narrow_codes lab. startswith c bc] = Inr ss"
    by (rule map_raise_total) (simp add: in_narrow_codes subject_node_total)
  with l show ?thesis
    by (auto simp: domain_node_def)
qed

lemma domain_node_code:
  assumes "domain_node nfkd lab bc = Inr d"
  shows "code d = bc"
    and "s \<in> set (subjects d) \<Longrightarrow>
           code s \<in> set (narrow_codes lab) \<and> take (length bc) (code s) = bc \<and>
           (\<forall>t \<in> set (topics s).
              code t \<in> set (detailed_codes lab) \<and> take (length (code s)) (code t) = code s)"
proof -
  from domain_node_Inr [OF assms] obtain ss where
      ss: "map_raise (subject_node nfkd lab) [c \<leftarrow> narrow_codes lab. startswith c bc] = Inr ss"
      and d: "code d = bc" "subjects d = ss"
    by blast
  from d show "code d = bc" by simp
  assume "s \<in> set (subjects d)"
  with d have "s \<in> set ss" by simp
  from map_raise_in [OF ss this] obtain nc where
      nc: "nc \<in> set [c \<leftarrow> narrow_codes lab. startswith c bc]" "subject_node nfkd lab nc = Inr s"
    by blast
  from nc(2) have c: "code s = nc" by (rule subject_node_code(1))
  have "\<forall>t \<in> set (topics s).
      code t \<in> set (detailed_codes lab) \<and> take (length (code s)) (code t) = code s"
    using subject_node_code(2) [OF nc(2)] c by simp
  with nc(1) c show "code s \<in> set (narrow_codes lab) \<and> take (length bc) (code s) = bc \<and>
           (\<forall>t \<in> set (topics s).
              code t \<in> set (detailed_codes lab) \<and> take (length (code s)) (code t) = code s)"
    by (simp add: startswith_def)
qed

text \<open>
  C10: the rebuild never raises, and in the list of domains it produces every subject has
  a 3-character code whose first two characters are the code of its enclosing domain,
  and every topic has a 4-character code whose first three characters are the code of
  its enclosing subject; domain codes are codes of the filtered source rows.  A
  3-character code whose 2-character prefix is not a code of the filtered rows is no
  emitted subject, and a 4-character code whose 3-character prefix is not one is no
  emitted topic.
\<close>

theorem isced_hierarchy_closure:
  "\<exists>ds. domains nd nfkd rows = Inr ds \<and>
     (\<forall>d \<in> set ds. length (code d) = 2 \<and> code d \<in> fst ` set (items nd rows) \<and>
        (\<forall>s \<in> set (subjects d). length (code s) = 3 \<and> take 2 (code s) = code d \<and>
           (\<forall>t \<in> set (topics s). length (code t) = 4 \<and> take 3 (code t) = code s))) \<and>
     (\<forall>c. length c = 3 \<and> take 2 c \<notin> fst ` set (items nd rows) \<longrightarrow>
        (\<forall>d \<in> set ds. \<forall>s \<in> set (subjects d). code s \<noteq> c)) \<and>
     (\<forall>c. length c = 4 \<and> take 3 c \<notin> fst ` set (items nd rows) \<longrightarrow>
        (\<forall>d \<in> set ds. \<forall>s \<in> set (subjects d). \<forall>t \<in> set (topics s). code t \<noteq> c))"
proof -
  define lab where "lab = labels (items nd rows)"
  have keys: "fst ` set lab = fst ` set (items nd rows)"
    by (simp add: lab_def keys_labels)
  have "\<exists>ds. map_raise (domain_node nfkd lab) (broad_codes lab) = Inr ds"
    by (rule map_raise_total) (simp add: in_broad_codes domain_node_total)
  then obtain ds where ds: "map_raise (domain_node nfkd lab) (broad_codes lab) = Inr ds" ..
  have dom: "length (code d) = 2 \<and> code d \<in> fst ` set lab \<and>
      (\<forall>s \<in> set (subjects d). length (code s) = 3 \<and> take 2 (code s) = code d \<and>
         take 2 (code s) \<in> fst ` set lab \<and>
         (\<forall>t \<in> set (topics s). length (code t) = 4 \<and> take 3 (code t) = code s \<and>
            take 3 (code t) \<in> fst ` set lab))"
    if "d \<in> set ds" for d
  proof -
    from map_raise_in [OF ds that] obtain bc where
        bc: "bc \<in> set (broad_codes lab)" "domain_node nfkd lab bc = Inr d"
      by blast
    from bc(2) have c: "code d = bc" by (rule domain_node_code(1))
    from bc(1) have b: "length bc = 2" "bc \<in> fst ` set lab"
      by (simp_all add: in_broad_codes)
    have sub: "length (code s) = 3 \<and> take 2 (code s) = code d \<and>
         take 2 (code s) \<in> fst ` set lab \<and>
         (\<forall>t \<in> set (topics s). length (code t) = 4 \<and> take 3 (code t) = code s \<and>
            take 3 (code t) \<in> fst ` set lab)" if s: "s \<in> set (subjects d)" for s
    proof -
      from domain_node_code(2) [OF bc(2) s]
      have n: "code s \<in> set (narrow_codes lab)" "take (length bc) (code s) = bc"
        and tp: "\<forall>t \<in> set (topics s).
          code t \<in> set (detailed_codes lab) \<and> take (length (code s)) (code t) = code s"
        by simp_all
      from n(1) have l3: "length (code s) = 3" "code s \<in> fst ` set lab"
        by (simp_all add: in_narrow_codes)
      from n(2) b(1) c have p: "take 2 (code s) = code d" by simp
      have "length (code t) = 4 \<and> take 3 (code t) = code s \<and> take 3 (code t) \<in> fst ` set lab"
        if "t \<in> set (topics s)" for t
      proof -
        from tp that have "code t \<in> set (detailed_codes lab)"
            "take (length (code s)) (code t) = code s"
          by simp_all
        with l3 show ?thesis
          by (simp add: in_detailed_codes)
      qed
      with l3 p b(2) c show ?thesis by simp
    qed
    have all: "\<forall>s \<in> set (subjects d). length (code s) = 3 \<and> take 2 (code s) = code d \<and>
         take 2 (code s) \<in> fst ` set lab \<and>
         (\<forall>t \<in> set (topics s). length (code t) = 4 \<and> take 3 (code t) = code s \<and>
            take 3 (code t) \<in> fst ` set lab)"
      by (intro ballI) (rule sub)
    from b c have "length (code d) = 2" "code d \<in> fst ` set lab" by simp_all
    with all show ?thesis by (intro conjI)
  qed
  have "domains nd nfkd rows = Inr ds"
    using ds by (simp add: domains_def lab_def)
  moreover have "\<forall>d \<in> set ds. length (code d) = 2 \<and> code d \<in> fst ` set (items nd rows) \<and>
        (\<forall>s \<in> set (subjects d). length (code s) = 3 \<and> take 2 (code s) = code d \<and>
           (\<forall>t \<in> set (topics s). length (code t) = 4 \<and> take 3 (code t) = code s))"
    using dom keys by blast
  moreover have "\<forall>c. length c = 3 \<and> take 2 c \<notin> fst ` set (items nd rows) \<longrightarrow>
        (\<forall>d \<in> set ds. \<forall>s \<in> set (subjects d). code s \<noteq> c)"
    using dom keys by blast
  moreover have "\<forall>c. length c = 4 \<and> take 3 c \<notin> fst ` set (items nd rows) \<longrightarrow>
        (\<forall>d \<in> set ds. \<forall>s \<in> set (subjects d). \<forall>t \<in> set (topics s). code t \<noteq> c)"
    using dom keys by blast
  ultimately show ?thesis by blast
qed



lemma isced_rows_orphan3: "length (py ''022'') = 3 \<and>
      take 2 (py ''022'') \<notin> fst ` set (items (\<lambda>c. False) isced_rows)"
  by (simp add: py_def isced_rows_def or_empty_def isced_code_def strip_def lstrip_def rstrip_def isspace_def is_decimal_def)

lemma isced_rows_items: "items (\<lambda>c. False) isced_rows = [(py ''01'', py ''Education''), (py ''011'', py ''Education science''),
   (py ''0111'', py ''Teaching''), (py ''022'', py ''Orphan''), (py ''0231'', py ''Orphan too''), (py ''01'', py ''Again'')]"
  by (simp add: py_def isced_rows_def or_empty_def isced_code_def strip_def lstrip_def rstrip_def isspace_def is_decimal_def)


lemma isced_rows_labels: "labels (items (\<lambda>c. False) isced_rows) = [(py ''01'', py ''Education''), (py ''011'', py ''Education science''),
   (py ''0111'', py ''Teaching''), (py ''022'', py ''Orphan''), (py ''0231'', py ''Orphan too'')]"
  unfolding isced_rows_items by (simp add: labels_def setdefault_def py_def)

lemma isced_rows_codes: "broad_codes (labels (items (\<lambda>c. False) isced_rows)) = [py ''01'']"
  "narrow_codes (labels (items (\<lambda>c. False) isced_rows)) = [py ''011'']"
  "detailed_codes (labels (items (\<lambda>c. False) isced_rows)) = [py ''0111'']"
  unfolding isced_rows_labels by (simp_all add: broad_codes_def narrow_codes_def detailed_codes_def py_def)

lemma isced_rows_prefixes: "startswith (py ''011'') (py ''01'')" "startswith (py ''0111'') (py ''011'')"
  by (simp_all add: py_def startswith_def)

lemma isced_rows_getitem:
  "getitem (labels (items (\<lambda>c. False) isced_rows)) (py ''01'') = Inr (py ''Education'')"
  "getitem (labels (items (\<lambda>c. False) isced_rows)) (py ''011'') = Inr (py ''Education science'')"
  "getitem (labels (items (\<lambda>c. False) isced_rows)) (py ''0111'') = Inr (py ''Teaching'')"
  unfolding isced_rows_labels by (simp_all add: getitem_def py_def)

lemma isced_rows_domains: "(case domains (\<lambda>c. False) id isced_rows of
      Inl e \<Rightarrow> []
    | Inr ds \<Rightarrow> map (\<lambda>d. (code d, map (\<lambda>s. (code s, map code (topics s))) (subjects d))) ds) =
     [(py ''01'', [(py ''011'', [py ''0111''])])]"
  by (simp add: domains_def domain_node_def subject_node_def topic_node_def isced_rows_codes isced_rows_prefixes isced_rows_getitem)

lemma isced_rows_orphan4: "length (py ''0231'') = 4 \<and>
      take 3 (py ''0231'') \<notin> fst ` set (items (\<lambda>c. False) isced_rows)"
  unfolding isced_rows_items by (simp add: py_def)

theorem isced_hierarchy_closure_witness:
  "(case domains (\<lambda>c. False) id isced_rows of
      Inl e \<Rightarrow> []
    | Inr ds \<Rightarrow> map (\<lambda>d. (code d, map (\<lambda>s. (code s, map code (topics s))) (subjects d))) ds) =
     [(py ''01'', [(py ''011'', [py ''0111''])])] \<and>
   length (py ''022'') = 3 \<and> take 2 (py ''022'') \<notin> fst ` set (items (\<lambda>c. False) isced_rows) \<and>
   length (py ''0231'') = 4 \<and> take 3 (py ''0231'') \<notin> fst ` set (items (\<lambda>c. False) isced_rows) \<and>
   (\<exists>ds. domains (\<lambda>c. False) id isced_rows = Inr ds \<and>
      (\<forall>d \<in> set ds. \<forall>s \<in> set (subjects d). take 2 (code s) = code d \<and> code s \<noteq> py ''022'' \<and>
         (\<forall>t \<in> set (topics s). take 3 (code t) = code s \<and> code t \<noteq> py ''0231'')))"
proof -
  from isced_hierarchy_closure [of "\<lambda>c. False" id isced_rows] obtain ds where
      a: "domains (\<lambda>c. False) id isced_rows = Inr ds \<and>
     (\<forall>d \<in> set ds. length (code d) = 2 \<and> code d \<in> fst ` set (items (\<lambda>c. False) isced_rows) \<and>
        (\<forall>s \<in> set (subjects d). length (code s) = 3 \<and> take 2 (code s) = code d \<and>
           (\<forall>t \<in> set (topics s). length (code t) = 4 \<and> take 3 (code t) = code s))) \<and>
     (\<forall>c. length c = 3 \<and> take 2 c \<notin> fst ` set (items (\<lambda>c. False) isced_rows) \<longrightarrow>
        (\<forall>d \<in> set ds. \<forall>s \<in> set (subjects d). code s \<noteq> c)) \<and>
     (\<forall>c. length c = 4 \<and> take 3 c \<notin> fst ` set (items (\<lambda>c. False) isced_rows) \<longrightarrow>
        (\<forall>d \<in> set ds. \<forall>s \<in> set (subjects d). \<forall>t \<in> set (topics s). code t \<noteq> c))" ..
  from a have ds: "domains (\<lambda>c. False) id isced_rows = Inr ds"
    by (rule conjunct1)
  note cl = conjunct1 [OF conjunct2 [OF a], rule_format]
  note x3 = conjunct1 [OF conjunct2 [OF conjunct2 [OF a]], rule_format, OF isced_rows_orphan3]
  note x4 = conjunct2 [OF conjunct2 [OF conjunct2 [OF a]], rule_format, OF isced_rows_orphan4]
  have "\<forall>d \<in> set ds. \<forall>s \<in> set (subjects d). take 2 (code s) = code d \<and> code s \<noteq> py ''022'' \<and>
         (\<forall>t \<in> set (topics s). take 3 (code t) = code s \<and> code t \<noteq> py ''0231'')"
  proof (intro ballI conjI)
    fix d s assume d: "d \<in> set ds" and s: "s \<in> set (subjects d)"
    from cl [OF d] s show "take 2 (code s) = code d" by simp
    from x3 [OF d s] show "code s \<noteq> py ''022''" .
    fix t assume t: "t \<in> set (topics s)"
    from cl [OF d] s t show "take 3 (code t) = code s" by simp
    from x4 [OF d s t] show "code t \<noteq> py ''0231''" .
  qed
  with ds have "\<exists>ds. domains (\<lambda>c. False) id isced_rows = Inr ds \<and>
      (\<forall>d \<in> set ds. \<forall>s \<in> set (subjects d). take 2 (code s) = code d \<and> code s \<noteq> py ''022'' \<and>
         (\<forall>t \<in> set (topics s). take 3 (code t) = code s \<and> code t \<noteq> py ''0231''))"
    by (intro exI conjI)
  with isced_rows_domains isced_rows_orphan3 isced_rows_orphan4 show ?thesis by (intro conjI) (rule conjunct1, assumption | rule conjunct2, assumption | assumption)+
qed

section \<open>The markup cleaner\<close>

lemma strip_ends:
  assumes "strip l \<noteq> []"
  shows "\<not> isspace (hd (strip l))" and "\<not> isspace (last (strip l))"
proof -
  let ?m = "dropWhile isspace l"
  let ?r = "dropWhile isspace (rev ?m)"
  from assms have r: "?r \<noteq> []"
    by (simp add: strip_def rstrip_def lstrip_def)
  then have m: "?m \<noteq> []"
    by (metis dropWhile.simps(1) rev.simps(1))
  from r have "\<not> isspace (hd ?r)" by (rule hd_dropWhile)
  with r show "\<not> isspace (last (strip l))"
    by (simp add: strip_def rstrip_def lstrip_def last_rev)
  obtain ys where ys: "rev ?m = ys @ ?r"
    by (metis takeWhile_dropWhile_id)
  with r have "last ?r = last (rev ?m)" by (metis last_appendR)
  also have "\<dots> = hd ?m" using m by (simp add: last_rev)
  finally have "hd (strip l) = hd ?m"
    using r by (simp add: strip_def rstrip_def lstrip_def hd_rev)
  moreover from m have "\<not> isspace (hd ?m)" by (rule hd_dropWhile)
  ultimately show "\<not> isspace (hd (strip l))" by simp
qed

lemma strip_indent:
  assumes "s \<noteq> []" and "\<not> isspace (hd s)" and "\<not> isspace (last s)"
    and "\<forall>c \<in> set ind. isspace c"
  shows "strip (ind @ s) = s"
proof -
  from assms(1,2,4) have "dropWhile isspace (ind @ s) = s"
    by (cases s) (simp_all add: dropWhile_append3)
  moreover from assms(1,3) have "dropWhile isspace (rev s) = rev s"
    by (cases "rev s") (simp_all add: last_rev [symmetric] hd_rev)
  ultimately show ?thesis
    by (simp add: strip_def lstrip_def rstrip_def)
qed

lemma indent_spaces: "\<forall>c \<in> set (concat (replicate k (py ''  ''))). isspace c"
  by (induction k) (simp_all add: py_def isspace_def)

lemma strip_strip_indent:
  "strip l \<noteq> [] \<Longrightarrow> strip (concat (replicate k (py ''  '')) @ strip l) = strip l"
  by (rule strip_indent [OF _ _ _ indent_spaces]) (simp_all add: strip_ends)

lemma strip_Nil: "strip [] = []"
  by (simp add: strip_def lstrip_def rstrip_def)

lemma fix_indent_idem: "fix_indent n (fix_indent n ls) = fix_indent n ls"
  by (induction ls arbitrary: n) (simp_all add: Let_def strip_Nil strip_strip_indent)

lemma map_strip_fix_indent: "map strip (fix_indent n ls) = map strip ls"
  by (induction ls arbitrary: n) (simp_all add: Let_def strip_Nil strip_strip_indent)


lemma split_nl_acc_line: "10 \<notin> set l \<Longrightarrow> split_nl_acc cur l = [cur @ l]"
  by (induction l arbitrary: cur) auto

lemma split_nl_acc_append:
  "10 \<notin> set l \<Longrightarrow> split_nl_acc cur (l @ 10 # rest) = (cur @ l) # split_nl_acc [] rest"
  by (induction l arbitrary: cur) auto

lemma split_join:
  "ls \<noteq> [] \<Longrightarrow> \<forall>l \<in> set ls. 10 \<notin> set l \<Longrightarrow> split_nl (join_nl ls) = ls"
proof (induction ls rule: join_nl.induct)
  case 1
  then show ?case by simp
next
  case (2 l)
  then show ?case by (simp add: split_nl_def split_nl_acc_line)
next
  case (3 l m ls)
  then have "split_nl (join_nl (m # ls)) = m # ls" by simp
  with 3 show ?case
    by (simp add: split_nl_def split_nl_acc_append)
qed

lemma split_nl_acc_free:
  "10 \<notin> set cur \<Longrightarrow> \<forall>l \<in> set (split_nl_acc cur s). 10 \<notin> set l"
proof (induction s arbitrary: cur)
  case Nil
  then show ?case by simp
next
  case (Cons c s)
  show ?case
  proof (cases "c = 10")
    case True
    with Cons.prems Cons.IH [of "[]"] show ?thesis by simp
  next
    case False
    with Cons.prems Cons.IH [of "cur @ [c]"] show ?thesis by simp
  qed
qed

lemma split_nl_acc_nonempty: "split_nl_acc cur s \<noteq> []"
  by (induction s arbitrary: cur) auto

lemma set_strip: "set (strip l) \<subseteq> set l"
proof -
  have "set (strip l) \<subseteq> set (dropWhile isspace l)"
    using set_dropWhileD [of _ isspace "rev (dropWhile isspace l)"]
    by (auto simp: strip_def lstrip_def rstrip_def)
  also have "\<dots> \<subseteq> set l"
    using set_dropWhileD [of _ isspace l] by auto
  finally show ?thesis .
qed

lemma fix_indent_free:
  "\<forall>l \<in> set ls. 10 \<notin> set l \<Longrightarrow> \<forall>l \<in> set (fix_indent n ls). 10 \<notin> set l"
proof (induction ls arbitrary: n)
  case Nil
  show ?case by simp
next
  case (Cons a ls)
  from Cons.prems have a: "10 \<notin> set (strip a)"
    using set_strip [of a] by auto
  have i: "10 \<notin> set (concat (replicate k (py ''  '')))" for k
    by (induction k) (simp_all add: py_def)
  from Cons.prems have r: "\<forall>l \<in> set (fix_indent k ls). 10 \<notin> set l" for k
    by (simp add: Cons.IH)
  show ?case
  proof (cases "strip a = []")
    case True
    with r show ?thesis by simp
  next
    case False
    with a i r show ?thesis by (simp add: Let_def)
  qed
qed

lemma fix_indent_nonempty: "ls \<noteq> [] \<Longrightarrow> fix_indent n ls \<noteq> []"
  by (cases ls) (simp_all add: Let_def)

lemma split_reindent: "split_nl (reindent x) = fix_indent 0 (split_nl x)"
proof -
  have n: "split_nl x \<noteq> []"
    by (simp add: split_nl_def split_nl_acc_nonempty)
  have "\<forall>l \<in> set (split_nl x). 10 \<notin> set l"
    unfolding split_nl_def by (rule split_nl_acc_free) simp
  then have f: "\<forall>l \<in> set (fix_indent 0 (split_nl x)). 10 \<notin> set l"
    by (rule fix_indent_free)
  from n have "fix_indent 0 (split_nl x) \<noteq> []"
    by (rule fix_indent_nonempty)
  then show ?thesis
    unfolding reindent_def using f by (rule split_join)
qed

lemma reindent_idem: "reindent (reindent x) = reindent x"
proof -
  have "reindent (reindent x) = join_nl (fix_indent 0 (split_nl (reindent x)))"
    by (simp add: reindent_def)
  also have "\<dots> = join_nl (fix_indent 0 (split_nl x))"
    by (simp only: split_reindent fix_indent_idem)
  finally show ?thesis by (simp add: reindent_def)
qed

lemma reindent_lines: "map strip (split_nl (reindent x)) = map strip (split_nl x)"
  by (simp only: split_reindent map_strip_fix_indent)

lemma clean_nested_once: "clean (py ''<div><div></div></div>'') = py ''<div></div>''"
proof -
  have "clean_subs (py ''<div><div></div></div>'') = py ''<div></div>''"
    by (simp add: clean_subs_def py_def startswith_def not_gt_def isspace_def)
  moreover have "reindent (py ''<div></div>'') = py ''<div></div>''"
    by (simp add: reindent_def split_nl_def py_def strip_def lstrip_def rstrip_def isspace_def
     startswith_def endswith_def opens_tag_def tag_name_def Let_def)
  ultimately show ?thesis by (simp add: clean_def)
qed

lemma clean_nested_twice: "clean (py ''<div></div>'') = []"
proof -
  have "clean_subs (py ''<div></div>'') = []"
    by (simp add: clean_subs_def py_def startswith_def not_gt_def isspace_def)
  moreover have "reindent [] = []"
    by (simp add: reindent_def split_nl_def strip_Nil)
  ultimately show ?thesis by (simp add: clean_def)
qed

text \<open>
  C4 as stated fails.  One pass removes only the innermost empty element: the nested empty
  wrappers \<^verbatim>\<open><div><div></div></div>\<close> are cleaned to \<^verbatim>\<open><div></div>\<close>, and
  cleaning that again gives the empty text.
\<close>

theorem clean_idempotence_counterexample:
  "clean (py ''<div><div></div></div>'') = py ''<div></div>'' \<and>
   clean (clean (py ''<div><div></div></div>'')) = [] \<and>
   clean (clean (py ''<div><div></div></div>'')) \<noteq> clean (py ''<div><div></div></div>'')"
  by (simp add: clean_nested_once clean_nested_twice) (simp add: py_def)

text \<open>
  C4, amended: a second pass changes nothing whenever the substitution stage finds
  nothing left to change in the cleaned text.  The indentation stage by itself is
  idempotent on every text, and it changes lines only in their leading and trailing
  whitespace: line by line, the stripped content is the same before and after.
\<close>

theorem clean_idempotent_when_settled:
  "(clean_subs (clean x) = clean x \<longrightarrow> clean (clean x) = clean x) \<and>
   reindent (reindent x) = reindent x \<and>
   map strip (split_nl (reindent x)) = map strip (split_nl x)"
  by (simp add: clean_def reindent_idem reindent_lines)

theorem clean_idempotent_when_settled_witness:
  "clean_subs (clean (py ''<p>hi</p>'')) = clean (py ''<p>hi</p>'') \<and>
   clean (clean (py ''<p>hi</p>'')) = clean (py ''<p>hi</p>'')"
proof -
  have c: "clean (py ''<p>hi</p>'') = py ''<p>hi</p>''"
    by (simp add: clean_def clean_subs_def py_def startswith_def not_gt_def isspace_def
        reindent_def split_nl_def strip_def lstrip_def rstrip_def 
        endswith_def opens_tag_def tag_name_def Let_def)
  have "clean_subs (py ''<p>hi</p>'') = py ''<p>hi</p>''"
    by (simp add: clean_subs_def py_def startswith_def not_gt_def isspace_def)
  then have h: "clean_subs (clean (py ''<p>hi</p>'')) = clean (py ''<p>hi</p>'')"
    by (simp add: c)
  with clean_idempotent_when_settled [of "py ''<p>hi</p>''"] show ?thesis by simp
qed

end
